theory Spec2Isabelle
  imports Complex_Main "HOL-Library.Product_Lexorder" "HOL-Library.Multiset"
begin

section \<open>Data model\<close>

text \<open>
  Python strings are modelled as \<^typ>\<open>string\<close>, one \<^typ>\<open>char\<close> per code point
  (code points below 256). Python integers are \<^typ>\<open>int\<close>; lengths and list
  positions are \<^typ>\<open>nat\<close>.
\<close>

datatype error = IndexError | ValueError | MarkupError

text \<open>The metadata dictionary that \<open>create_chunks\<close> attaches to every chunk.\<close>

record metadata =
  title :: string
  tags :: "string list"
  file_path :: string

text \<open>
  \<open>DocumentChunk\<close>, with the fields its constructor call in \<open>create_chunks\<close> sets.
  The field \<open>id\<close> is named \<open>chunk_id\<close> here, since \<open>id\<close> is the identity of HOL.
\<close>

record DocumentChunk =
  chunk_id :: string
  document_id :: string
  content :: string
  language :: string
  category :: string
  chunk_index :: nat
  start_pos :: int
  end_pos :: int
  metadata :: metadata

section \<open>The Markdown chunker\<close>

subsection \<open>String operations of Python\<close>

definition newline :: string where
  "newline = [CHR 0x0A]"

text \<open>Python's \<open>sep.join(parts)\<close> and \<open>str.strip()\<close>.\<close>

fun join :: "string \<Rightarrow> string list \<Rightarrow> string" where
  "join sep [] = []"
| "join sep [s] = s"
| "join sep (s # t # ss) = s @ sep @ join sep (t # ss)"

definition is_space :: "char \<Rightarrow> bool" where
  "is_space c = (of_char c \<in> {9, 10, 11, 12, 13, 28, 29, 30, 31, 32, 133, 160 :: nat})"

definition lstrip :: "string \<Rightarrow> string" where
  "lstrip s = dropWhile is_space s"

definition rstrip :: "string \<Rightarrow> string" where
  "rstrip s = rev (dropWhile is_space (rev s))"

definition strip :: "string \<Rightarrow> string" where
  "strip s = rstrip (lstrip s)"

text \<open>\<open>content.split('\n')\<close>: the empty string gives one empty line.\<close>

fun split_lines :: "string \<Rightarrow> string list" where
  "split_lines [] = [[]]"
| "split_lines (c # cs) =
     (if [c] = newline then [] # split_lines cs
      else (case split_lines cs of [] \<Rightarrow> [[c]] | l # ls \<Rightarrow> (c # l) # ls))"

definition startswith :: "string \<Rightarrow> string \<Rightarrow> bool" where
  "startswith s p = (take (length p) s = p)"

text \<open>\<open>line.lstrip('#')\<close> and \<open>line.strip('#')\<close>.\<close>

definition lstrip_hash :: "string \<Rightarrow> string" where
  "lstrip_hash s = dropWhile (\<lambda>c. c = CHR ''#'') s"

definition strip_hash :: "string \<Rightarrow> string" where
  "strip_hash s = rev (dropWhile (\<lambda>c. c = CHR ''#'') (rev (lstrip_hash s)))"

text \<open>\<open>s.find(sub)\<close>: the lowest position at which \<open>sub\<close> starts, or \<open>-1\<close>.\<close>

fun find_from :: "nat \<Rightarrow> string \<Rightarrow> string \<Rightarrow> int" where
  "find_from i [] sub = (if sub = [] then int i else - 1)"
| "find_from i (c # cs) sub =
     (if startswith (c # cs) sub then int i else find_from (Suc i) cs sub)"

definition str_find :: "string \<Rightarrow> string \<Rightarrow> int" where
  "str_find s sub = find_from 0 s sub"

text \<open>
  The slice \<open>s[i:j]\<close>: a negative bound counts from the end, and both bounds are
  clamped to the string.
\<close>

definition clamp_index :: "nat \<Rightarrow> int \<Rightarrow> nat" where
  "clamp_index n i = (if i < 0 then nat (max 0 (int n + i)) else min n (nat i))"

definition str_slice :: "string \<Rightarrow> int \<Rightarrow> int \<Rightarrow> string" where
  "str_slice s i j = drop (clamp_index (length s) i) (take (clamp_index (length s) j) s)"

text \<open>The decimal numeral of \<open>str(i)\<close>, for the \<open>{i}\<close> of an f-string.\<close>

definition digit_char :: "nat \<Rightarrow> char" where
  "digit_char d = ''0123456789'' ! d"

fun str_nat_fuel :: "nat \<Rightarrow> nat \<Rightarrow> string" where
  "str_nat_fuel 0 n = [digit_char (n mod 10)]"
| "str_nat_fuel (Suc k) n =
     (if n < 10 then [digit_char n] else str_nat_fuel k (n div 10) @ [digit_char (n mod 10)])"

definition str_nat :: "nat \<Rightarrow> string" where
  "str_nat n = str_nat_fuel n n"

subsection \<open>Splitting\<close>

text \<open>The state of both splitting functions: \<open>chunks\<close>, \<open>current_chunk\<close>, \<open>current_size\<close>.\<close>

type_synonym split_state = "string list \<times> string list \<times> int"

text \<open>
  The overlap loop. Its second argument is the lines it visits, last line first; it
  stops at the first line that no longer fits into \<open>chunk_overlap\<close>.
\<close>

fun overlap_loop :: "int \<Rightarrow> string list \<Rightarrow> string list \<times> int \<Rightarrow> string list \<times> int" where
  "overlap_loop chunk_overlap [] (overlap_lines, overlap_size) = (overlap_lines, overlap_size)"
| "overlap_loop chunk_overlap (l # ls) (overlap_lines, overlap_size) =
     (if overlap_size + int (length l) + 1 \<le> chunk_overlap
      then overlap_loop chunk_overlap ls (l # overlap_lines, overlap_size + int (length l) + 1)
      else (overlap_lines, overlap_size))"

text \<open>
  The lines visited: \<open>range(len(c) - 1, -1, -1)\<close> in \<open>_simple_split_chunks\<close> and
  \<open>range(len(c) - 1, max(0, len(c) - 3), -1)\<close> in \<open>_split_large_section\<close>.
\<close>

definition visited_simple :: "string list \<Rightarrow> string list" where
  "visited_simple current_chunk = rev current_chunk"

definition visited_large :: "string list \<Rightarrow> string list" where
  "visited_large current_chunk = rev (drop (Suc (length current_chunk - 3)) current_chunk)"

text \<open>One iteration of the loop of \<open>_simple_split_chunks\<close>.\<close>

fun simple_step :: "int \<Rightarrow> int \<Rightarrow> split_state \<Rightarrow> string \<Rightarrow> split_state" where
  "simple_step chunk_size chunk_overlap (chunks, current_chunk, current_size) line =
     (let line_size = int (length line) + 1;
          (chunks1, current_chunk1, current_size1) =
            (if current_size + line_size > chunk_size \<and> current_chunk \<noteq> [] then
               (let (overlap_lines, overlap_size) =
                      overlap_loop chunk_overlap (visited_simple current_chunk) ([], 0)
                in (chunks @ [join newline current_chunk], overlap_lines, overlap_size))
             else (chunks, current_chunk, current_size))
      in (chunks1, current_chunk1 @ [line], current_size1 + line_size))"

text \<open>The end of both functions: the chunk in progress is emitted unless it has no line.\<close>

fun finish :: "split_state \<Rightarrow> string list" where
  "finish (chunks, current_chunk, current_size) =
     (if current_chunk \<noteq> [] then chunks @ [join newline current_chunk] else chunks)"

definition simple_split_chunks :: "string \<Rightarrow> int \<Rightarrow> int \<Rightarrow> string list" where
  "simple_split_chunks text chunk_size chunk_overlap =
     finish (foldl (simple_step chunk_size chunk_overlap) ([], [], 0) (split_lines text))"

text \<open>
  One iteration of the loop of \<open>_split_large_section\<close>. The test
  \<open>current_size > chunk_size * 0.7\<close> is evaluated in binary floating point, where
  \<open>chunk_size * 0.7\<close> is rounded; it is the parameter \<open>exceeds\<close>, applied to
  \<open>current_size\<close> and \<open>chunk_size\<close>.
\<close>

fun large_step ::
  "(int \<Rightarrow> int \<Rightarrow> bool) \<Rightarrow> int \<Rightarrow> int \<Rightarrow> split_state \<Rightarrow> string \<Rightarrow> split_state" where
  "large_step exceeds chunk_size chunk_overlap (chunks, current_chunk, current_size) line =
     (let line_size = int (length line) + 1;
          (chunks1, current_chunk1, current_size1) =
            (if startswith (strip line) ''###'' \<and> current_chunk \<noteq> []
                \<and> exceeds current_size chunk_size
             then (chunks @ [join newline current_chunk], [], 0)
             else (chunks, current_chunk, current_size));
          (chunks2, current_chunk2, current_size2) =
            (if current_size1 + line_size > chunk_size \<and> current_chunk1 \<noteq> [] then
               (let (overlap_lines, overlap_size) =
                      overlap_loop chunk_overlap (visited_large current_chunk1) ([], 0)
                in (chunks1 @ [join newline current_chunk1], overlap_lines, overlap_size))
             else (chunks1, current_chunk1, current_size1))
      in (chunks2, current_chunk2 @ [line], current_size2 + line_size))"

definition split_large_section ::
  "(int \<Rightarrow> int \<Rightarrow> bool) \<Rightarrow> string list \<Rightarrow> int \<Rightarrow> int \<Rightarrow> string list" where
  "split_large_section exceeds section_lines chunk_size chunk_overlap =
     finish (foldl (large_step exceeds chunk_size chunk_overlap) ([], [], 0) section_lines)"

text \<open>
  The test \<open>current_size > chunk_size * 0.7\<close> as Python evaluates it. \<open>chunk_size\<close> is
  converted to a double, the product with the double nearest to \<open>0.7\<close>, which is
  \<open>3152519739159347 / 2^52\<close>, is rounded to a double, and the integer \<open>current_size\<close>
  is compared with it exactly. A double has 53 significant bits and rounding is to the
  nearest, ties to the even one. (The doubles end near \<open>2^1024\<close>, where Python raises
  \<open>OverflowError\<close>; sizes are far below.)
\<close>

fun bit_length :: "nat \<Rightarrow> nat" where
  "bit_length n = (if n = 0 then 0 else Suc (bit_length (n div 2)))"

declare bit_length.simps [simp del]

definition round53 :: "nat \<Rightarrow> nat" where
  "round53 n =
     (let b = bit_length n in
      if b \<le> 53 then n
      else
        let s = b - 53; q = n div 2 ^ s; r = n mod 2 ^ s; h = 2 ^ (s - 1);
            q1 = (if h < r \<or> (r = h \<and> odd q) then q + 1 else q)
        in q1 * 2 ^ s)"

definition exceeds_float :: "int \<Rightarrow> int \<Rightarrow> bool" where
  "exceeds_float current_size chunk_size =
     (let p = int (round53 (round53 (nat \<bar>chunk_size\<bar>) * 3152519739159347))
      in if 0 \<le> chunk_size then p < current_size * 2 ^ 52
         else - p < current_size * 2 ^ 52)"

subsection \<open>Headers and sections\<close>

text \<open>A header entry; the dictionary keys are \<open>index\<close>, \<open>level\<close>, \<open>text\<close> and \<open>line\<close>.\<close>

record header =
  h_index :: nat
  h_level :: nat
  h_text :: string
  h_line :: string

definition header_positions :: "string list \<Rightarrow> header list" where
  "header_positions lines =
     map (\<lambda>(i, line).
            \<lparr>h_index = i,
             h_level = length line - length (lstrip_hash line),
             h_text = strip (strip_hash line),
             h_line = line\<rparr>)
       (filter (\<lambda>(i, line). startswith (strip line) ''#'') (zip [0..<length lines] lines))"

text \<open>
  The end of a section: the line of the next header of the same or a higher level
  (a level that is not larger), or the number of lines.
\<close>

definition section_end :: "nat \<Rightarrow> header \<Rightarrow> header list \<Rightarrow> nat" where
  "section_end n h later =
     (case filter (\<lambda>next_header. h_level next_header \<le> h_level h) later of
        [] \<Rightarrow> n
      | next_header # _ \<Rightarrow> h_index next_header)"

text \<open>
  The loop over the headers. \<open>len(section_content) > chunk_size * 1.5\<close> is exact in
  floating point (for sizes below \<open>2^52\<close>) and is written with integers.
\<close>

fun header_chunks ::
  "(int \<Rightarrow> int \<Rightarrow> bool) \<Rightarrow> string list \<Rightarrow> int \<Rightarrow> int \<Rightarrow> header list \<Rightarrow> string list" where
  "header_chunks exceeds lines chunk_size chunk_overlap [] = []"
| "header_chunks exceeds lines chunk_size chunk_overlap (h # hs) =
     (let start_line = h_index h;
          end_line = section_end (length lines) h hs;
          section_lines = drop start_line (take end_line lines);
          section_content = join newline section_lines
      in (if 2 * int (length section_content) > 3 * chunk_size
          then split_large_section exceeds section_lines chunk_size chunk_overlap
          else [section_content])
         @ header_chunks exceeds lines chunk_size chunk_overlap hs)"

record settings =
  chunk_size :: int
  chunk_overlap :: int

text \<open>\<open>split_into_chunks\<close>; an argument that is \<open>None\<close> is taken from the settings.\<close>

definition split_into_chunks ::
  "settings \<Rightarrow> (int \<Rightarrow> int \<Rightarrow> bool) \<Rightarrow> string \<Rightarrow> int option \<Rightarrow> int option \<Rightarrow> string list" where
  "split_into_chunks cfg exceeds text size_arg overlap_arg =
     (let size = (case size_arg of None \<Rightarrow> chunk_size cfg | Some n \<Rightarrow> n);
          overlap = (case overlap_arg of None \<Rightarrow> chunk_overlap cfg | Some n \<Rightarrow> n);
          lines = split_lines text;
          hp = header_positions lines
      in if hp = [] then simple_split_chunks text size overlap
         else header_chunks exceeds lines size overlap hp)"

subsection \<open>Chunks of a document\<close>

text \<open>The fields of \<open>Document\<close> that \<open>create_chunks\<close> reads.\<close>

record Document =
  d_id :: string
  d_title :: string
  d_content :: string
  d_language :: string
  d_category :: string
  d_tags :: "string list"
  d_file_path :: string

text \<open>
  The loop of \<open>create_chunks\<close> over \<open>enumerate(chunks)\<close>; the last argument is
  \<open>document_chunks\<close>.
\<close>

fun build_chunks :: "Document \<Rightarrow> (nat \<times> string) list \<Rightarrow> DocumentChunk list \<Rightarrow> DocumentChunk list" where
  "build_chunks document [] document_chunks = document_chunks"
| "build_chunks document ((i, chunk_content) # rest) document_chunks =
     (if strip chunk_content = [] then build_chunks document rest document_chunks
      else build_chunks document rest
             (document_chunks @
              [\<lparr>chunk_id = d_id document @ ''_chunk_'' @ str_nat i,
                document_id = d_id document,
                content = chunk_content,
                language = d_language document,
                category = d_category document,
                chunk_index = length document_chunks,
                start_pos = str_find (d_content document) chunk_content,
                end_pos = str_find (d_content document) chunk_content
                          + int (length chunk_content),
                metadata = \<lparr>title = d_title document, tags = d_tags document,
                            file_path = d_file_path document\<rparr>\<rparr>]))"

definition create_chunks ::
  "settings \<Rightarrow> (int \<Rightarrow> int \<Rightarrow> bool) \<Rightarrow> Document \<Rightarrow> DocumentChunk list" where
  "create_chunks cfg exceeds document =
     (let chunks = split_into_chunks cfg exceeds (d_content document) None None
      in build_chunks document (zip [0..<length chunks] chunks) [])"

section \<open>The in-memory vector store\<close>

subsection \<open>Scores\<close>

text \<open>
  A similarity score is a NumPy float: a number, an infinity or \<open>NaN\<close>. Division
  produces the special values instead of raising: \<open>0 / 0\<close> is \<open>NaN\<close> and \<open>x / 0\<close> is an
  infinity for \<open>x \<noteq> 0\<close>.
\<close>

datatype npfloat = NegInf | Fin real | PosInf | NaN

text \<open>Division of two finite NumPy scalars: a warning at most, never an exception.\<close>

definition np_divide :: "real \<Rightarrow> real \<Rightarrow> npfloat" where
  "np_divide x y =
     (if y \<noteq> 0 then Fin (x / y)
      else if x = 0 then NaN
      else if 0 < x then PosInf else NegInf)"

text \<open>The comparison \<open>similarity >= threshold\<close>: every comparison with \<open>NaN\<close> is false.\<close>

fun np_ge :: "npfloat \<Rightarrow> real \<Rightarrow> bool" where
  "np_ge (Fin x) t = (t \<le> x)"
| "np_ge PosInf t = True"
| "np_ge NegInf t = False"
| "np_ge NaN t = False"

text \<open>
  The position of a score in the order that sorting uses: the order of the numbers,
  with \<open>NaN\<close> after everything else (as \<open>numpy.argsort\<close> places it).
\<close>

fun rank :: "npfloat \<Rightarrow> nat \<times> real" where
  "rank NegInf = (0, 0)"
| "rank (Fin x) = (1, x)"
| "rank PosInf = (2, 0)"
| "rank NaN = (3, 0)"

subsection \<open>Cosine similarity\<close>

definition np_dot :: "real list \<Rightarrow> real list \<Rightarrow> real" where
  "np_dot a b = (\<Sum>(x, y)\<leftarrow>zip a b. x * y)"

definition np_norm :: "real list \<Rightarrow> real" where
  "np_norm v = sqrt (\<Sum>x\<leftarrow>v. x * x)"

text \<open>
  \<open>_cosine_similarity\<close>: \<open>np.dot(vec1, vec2) / (norm(vec1) * norm(vec2))\<close>, with the
  arithmetic of the real numbers. \<open>np.dot\<close> raises \<open>ValueError\<close> on vectors of
  different lengths; the division is not guarded.
\<close>

definition cosine_similarity :: "real list \<Rightarrow> real list \<Rightarrow> error + npfloat" where
  "cosine_similarity vec1 vec2 =
     (if length vec1 \<noteq> length vec2 then Inl ValueError
      else Inr (np_divide (np_dot vec1 vec2) (np_norm vec1 * np_norm vec2)))"

subsection \<open>State and operations\<close>

record MemoryVectorStore =
  chunks :: "DocumentChunk list"
  embeddings :: "real list list"
  chunk_to_embedding :: "string \<rightharpoonup> nat"

text \<open>\<open>__init__\<close>: three empty containers.\<close>

definition init_store :: MemoryVectorStore where
  "init_store = \<lparr>chunks = [], embeddings = [], chunk_to_embedding = Map.empty\<rparr>"

text \<open>
  \<open>get_embedding_text\<close>: title, tags, category, language and content, joined by single
  spaces and stripped. The tags of a chunk are a list here, so the branch for other
  values is not needed; \<open>x or ''\<close> is \<open>x\<close> for a string.
\<close>

definition get_embedding_text :: "DocumentChunk \<Rightarrow> string" where
  "get_embedding_text chunk =
     strip (title (metadata chunk) @ '' '' @ join '' '' (tags (metadata chunk)) @ '' ''
            @ category chunk @ '' '' @ language chunk @ '' '' @ content chunk)"

text \<open>The loop \<open>for i, chunk in enumerate(chunks): mapping[chunk.id] = start_idx + i\<close>.\<close>

fun update_mapping :: "(string \<rightharpoonup> nat) \<Rightarrow> nat \<Rightarrow> DocumentChunk list \<Rightarrow> (string \<rightharpoonup> nat)" where
  "update_mapping m i [] = m"
| "update_mapping m i (c # cs) = update_mapping (m(chunk_id c \<mapsto> i)) (Suc i) cs"

text \<open>
  \<open>add_chunks\<close>. The embedding model is outside the repository and is a parameter:
  \<open>encode\<close> maps a batch of texts to a batch of vectors. The result is the returned
  flag and the store after the call.
\<close>

definition add_chunks ::
  "(string list \<Rightarrow> real list list) \<Rightarrow> DocumentChunk list \<Rightarrow> MemoryVectorStore
     \<Rightarrow> bool \<times> MemoryVectorStore" where
  "add_chunks encode cs st =
     (if cs = [] then (True, st)
      else
        let texts = map get_embedding_text cs;
            embs = encode texts;
            start_idx = length (chunks st)
        in (True, st\<lparr>chunks := chunks st @ cs,
                      embeddings := embeddings st @ embs,
                      chunk_to_embedding := update_mapping (chunk_to_embedding st) start_idx cs\<rparr>))"

text \<open>A filter argument is applied when it is truthy: not \<open>None\<close> and not empty.\<close>

fun truthy :: "string option \<Rightarrow> bool" where
  "truthy None = False"
| "truthy (Some s) = (s \<noteq> [])"

text \<open>The loop that builds \<open>filtered_chunks\<close>.\<close>

definition filter_chunks :: "string option \<Rightarrow> string option \<Rightarrow> DocumentChunk list \<Rightarrow> DocumentChunk list" where
  "filter_chunks lang cat cs =
     (if truthy lang \<or> truthy cat
      then filter (\<lambda>chunk. \<not> (truthy lang \<and> Some (language chunk) \<noteq> lang)
                         \<and> \<not> (truthy cat \<and> Some (category chunk) \<noteq> cat)) cs
      else cs)"

text \<open>
  The loop over \<open>enumerate(self._chunks)\<close> that fills \<open>similarities\<close> and
  \<open>chunk_indices\<close>. Reading \<open>self.embeddings[i]\<close> raises \<open>IndexError\<close> past the end, and
  the first exception ends the loop. The machine evaluates \<open>_cosine_similarity\<close> in
  floating point, where every operation rounds; that evaluation is the parameter
  \<open>cosine\<close>.
\<close>

fun calc_similarities ::
  "(real list \<Rightarrow> real list \<Rightarrow> error + npfloat) \<Rightarrow> real list list \<Rightarrow> real list
     \<Rightarrow> DocumentChunk list \<Rightarrow> (nat \<times> DocumentChunk) list
     \<Rightarrow> error + (npfloat list \<times> nat list)" where
  "calc_similarities cosine embs qv flt [] = Inr ([], [])"
| "calc_similarities cosine embs qv flt ((i, chunk) # rest) =
     (if chunk \<in> set flt then
        (if i < length embs then
           (case cosine qv (embs ! i) of
              Inl e \<Rightarrow> Inl e
            | Inr s \<Rightarrow>
               (case calc_similarities cosine embs qv flt rest of
                  Inl e \<Rightarrow> Inl e
                | Inr (sims, idxs) \<Rightarrow> Inr (s # sims, i # idxs)))
         else Inl IndexError)
      else calc_similarities cosine embs qv flt rest)"

text \<open>The slice \<open>xs[:k]\<close>; a negative \<open>k\<close> counts from the end.\<close>

definition slice_to :: "int \<Rightarrow> 'a list \<Rightarrow> 'a list" where
  "slice_to k xs = (if 0 \<le> k then take (nat k) xs else take (nat (int (length xs) + k)) xs)"

text \<open>
  The loop over \<open>top_indices\<close>: an entry at or above the threshold is appended to the
  results. A position past the end of \<open>similarities\<close>, \<open>chunk_indices\<close> or
  \<open>self._chunks\<close> raises \<open>IndexError\<close>.
\<close>

fun collect_results ::
  "DocumentChunk list \<Rightarrow> npfloat list \<Rightarrow> nat list \<Rightarrow> real \<Rightarrow> nat list
     \<Rightarrow> error + (DocumentChunk \<times> npfloat) list" where
  "collect_results cs similarities chunk_indices threshold [] = Inr []"
| "collect_results cs similarities chunk_indices threshold (idx # rest) =
     (if idx < length similarities then
        (if np_ge (similarities ! idx) threshold then
           (if idx < length chunk_indices \<and> chunk_indices ! idx < length cs then
              (case collect_results cs similarities chunk_indices threshold rest of
                 Inl e \<Rightarrow> Inl e
               | Inr results \<Rightarrow> Inr ((cs ! (chunk_indices ! idx), similarities ! idx) # results))
            else Inl IndexError)
         else collect_results cs similarities chunk_indices threshold rest)
      else Inl IndexError)"

text \<open>
  \<open>search\<close>. The embedding of the query is the first vector of \<open>encode [query]\<close>.
  \<open>numpy.argsort\<close> is called with its default sort, which is not stable: the order it
  gives to equal scores is not fixed by its contract and differs between platforms. It
  is the parameter \<open>argsort\<close>.
\<close>

definition search ::
  "(real list \<Rightarrow> real list \<Rightarrow> error + npfloat) \<Rightarrow> (npfloat list \<Rightarrow> nat list)
     \<Rightarrow> (string list \<Rightarrow> real list list) \<Rightarrow> MemoryVectorStore \<Rightarrow> string \<Rightarrow> int \<Rightarrow> real
     \<Rightarrow> string option \<Rightarrow> string option \<Rightarrow> error + (DocumentChunk \<times> npfloat) list" where
  "search cosine argsort encode st query top_k threshold lang cat =
     (if chunks st = [] then Inr []
      else
        let filtered_chunks = filter_chunks lang cat (chunks st) in
        (case encode [query] of
           [] \<Rightarrow> Inl IndexError
         | query_embedding # _ \<Rightarrow>
            (case calc_similarities cosine (embeddings st) query_embedding filtered_chunks
                    (zip [0..<length (chunks st)] (chunks st)) of
               Inl e \<Rightarrow> Inl e
             | Inr (similarities, chunk_indices) \<Rightarrow>
                (if similarities \<noteq> [] then
                   let top_indices = slice_to top_k (rev (argsort similarities)) in
                   collect_results (chunks st) similarities chunk_indices threshold top_indices
                 else Inr []))))"

text \<open>\<open>get_stats\<close>: the three numbers of the returned dictionary; the store is not changed.\<close>

record stats =
  total_chunks :: nat
  total_embeddings :: nat
  embedding_dimension :: nat

definition get_stats :: "MemoryVectorStore \<Rightarrow> stats" where
  "get_stats st =
     \<lparr>total_chunks = length (chunks st),
      total_embeddings = length (embeddings st),
      embedding_dimension = (case embeddings st of [] \<Rightarrow> 0 | e # _ \<Rightarrow> length e)\<rparr>"

text \<open>\<open>clear\<close>: the three containers are emptied; the flag is \<open>True\<close>.\<close>

definition clear :: "MemoryVectorStore \<Rightarrow> bool \<times> MemoryVectorStore" where
  "clear st = (True, st\<lparr>chunks := [], embeddings := [], chunk_to_embedding := Map.empty\<rparr>)"

section \<open>The logger\<close>

text \<open>
  The functions of \<open>utils/logger.py\<close> that the knowledge service calls. Each formats
  one line and passes it to \<open>Console.print\<close> of the library rich, which reads square
  brackets in the line as markup tags and raises \<open>MarkupError\<close> at a closing tag that
  closes nothing. The console is the parameter \<open>console\<close>: it tells whether the line is
  printed; when it is not, the call raises \<open>MarkupError\<close>. The bullet and the check mark
  are code points above 255 and are written as their UTF-8 bytes.
\<close>

definition bullet :: string where
  "bullet = [CHR 0xE2, CHR 0x80, CHR 0xA2]"

definition check_mark :: string where
  "check_mark = [CHR 0xE2, CHR 0x9C, CHR 0x93]"

definition info :: "(string \<Rightarrow> bool) \<Rightarrow> string \<Rightarrow> bool" where
  "info console message = console (''[green]'' @ bullet @ ''[/green] '' @ message)"

definition success :: "(string \<Rightarrow> bool) \<Rightarrow> string \<Rightarrow> bool" where
  "success console message =
     (if startswith message check_mark
      then console (''[bold green]'' @ message @ ''[/bold green]'')
      else console (''[bold green]'' @ check_mark @ ''[/bold green] '' @ message))"

definition warning :: "(string \<Rightarrow> bool) \<Rightarrow> string \<Rightarrow> bool" where
  "warning console message = console (''[yellow]![/yellow] '' @ message)"

section \<open>The knowledge service\<close>

text \<open>\<open>SearchResult\<close>: \<open>round\<close> is 1 for the broad pass and 2 for the refined pass.\<close>

record SearchResult =
  chunk :: DocumentChunk
  similarity :: npfloat
  round :: nat

text \<open>
  \<open>list.sort(key=..., reverse=True)\<close>: Python reverses the list, sorts it with its stable
  ascending sort and reverses the result, so equal keys keep their order.
\<close>

definition sort_reverse :: "('a \<Rightarrow> 'k::linorder) \<Rightarrow> 'a list \<Rightarrow> 'a list" where
  "sort_reverse key xs = rev (sort_key key (rev xs))"

text \<open>The merge of the two result lists, before the final sort.\<close>

definition merge_results ::
  "(DocumentChunk \<times> npfloat) list \<Rightarrow> (DocumentChunk \<times> npfloat) list \<Rightarrow> SearchResult list" where
  "merge_results refined_results broad_results =
     (let all_results =
            map (\<lambda>(c, s). \<lparr>chunk = c, similarity = s, round = 2\<rparr>) refined_results;
          existing_ids = set (map (\<lambda>r. chunk_id (chunk r)) all_results)
      in all_results @
         map (\<lambda>(c, s). \<lparr>chunk = c, similarity = s, round = 1\<rparr>)
           (filter (\<lambda>(c, s). chunk_id c \<notin> existing_ids) broad_results))"

text \<open>
  \<open>multi_round_search\<close>, statement by statement, the calls of the logger included. The
  first component of the result is the list of the calls made to \<open>search\<close>, as pairs of
  \<open>top_k\<close> and \<open>threshold\<close>, in order; the second is the outcome. No exception is
  caught: one of \<open>search\<close> or of the logger ends the call.
\<close>

definition multi_round_search ::
  "(string \<Rightarrow> bool) \<Rightarrow> (real list \<Rightarrow> real list \<Rightarrow> error + npfloat) \<Rightarrow> (npfloat list \<Rightarrow> nat list)
     \<Rightarrow> (string list \<Rightarrow> real list list) \<Rightarrow> MemoryVectorStore \<Rightarrow> string
     \<Rightarrow> int \<Rightarrow> int \<Rightarrow> real \<Rightarrow> real
     \<Rightarrow> (int \<times> real) list \<times> (error + SearchResult list)" where
  "multi_round_search console cosine argsort encode st query
       broad_top_k refined_top_k broad_threshold refined_threshold =
     (if \<not> info console (''Multi-round search for: '' @ query) then ([], Inl MarkupError)
      else if \<not> info console ''Round 1: Broad search'' then ([], Inl MarkupError)
      else
        (case search cosine argsort encode st query broad_top_k broad_threshold None None of
           Inl e \<Rightarrow> ([(broad_top_k, broad_threshold)], Inl e)
         | Inr broad_results \<Rightarrow>
            (if broad_results = [] then
               (if \<not> warning console ''No results found in broad search''
                then ([(broad_top_k, broad_threshold)], Inl MarkupError)
                else ([(broad_top_k, broad_threshold)], Inr []))
             else if \<not> success console (''Broad search found ''
                         @ str_nat (length broad_results) @ '' candidates'')
             then ([(broad_top_k, broad_threshold)], Inl MarkupError)
             else if \<not> info console ''Round 2: Refined search''
             then ([(broad_top_k, broad_threshold)], Inl MarkupError)
             else
               (case search cosine argsort encode st query refined_top_k refined_threshold
                       None None of
                  Inl e \<Rightarrow>
                    ([(broad_top_k, broad_threshold), (refined_top_k, refined_threshold)], Inl e)
                | Inr refined_results \<Rightarrow>
                    (if \<not> success console (''Refined search found ''
                            @ str_nat (length refined_results) @ '' high-quality results'')
                     then ([(broad_top_k, broad_threshold), (refined_top_k, refined_threshold)],
                           Inl MarkupError)
                     else
                       let all_results = sort_reverse (\<lambda>r. rank (similarity r))
                                           (merge_results refined_results broad_results)
                       in if \<not> success console (''Combined search returned ''
                                 @ str_nat (length all_results) @ '' unique results'')
                          then ([(broad_top_k, broad_threshold),
                                 (refined_top_k, refined_threshold)], Inl MarkupError)
                          else ([(broad_top_k, broad_threshold),
                                 (refined_top_k, refined_threshold)], Inr all_results))))))"

section \<open>Notions used in the statements\<close>

subsection \<open>Chunker\<close>

text \<open>The size of a run of lines as the chunker counts it: each line and one separator.\<close>

definition lines_size :: "string list \<Rightarrow> int" where
  "lines_size ls = (\<Sum>l\<leftarrow>ls. int (length l) + 1)"



text \<open>The number of positions of \<open>s\<close> at which \<open>sub\<close> occurs.\<close>

definition occurrences :: "string \<Rightarrow> string \<Rightarrow> nat" where
  "occurrences s sub = length (filter (\<lambda>i. startswith (drop i s) sub) [0..<Suc (length s)])"

subsection \<open>Vector store\<close>

text \<open>
  What the code relies on from the embedding model: one vector for each text, all of
  one dimension \<open>d\<close>.
\<close>

definition encoder_ok :: "nat \<Rightarrow> (string list \<Rightarrow> real list list) \<Rightarrow> bool" where
  "encoder_ok d encode \<longleftrightarrow>
     (\<forall>ts. length (encode ts) = length ts \<and> (\<forall>v\<in>set (encode ts). length v = d))"

text \<open>
  What the code relies on from the floating-point evaluation of \<open>_cosine_similarity\<close>:
  on two vectors of dimension \<open>d\<close> it returns a score and does not raise.
\<close>

definition cosine_ok :: "nat \<Rightarrow> (real list \<Rightarrow> real list \<Rightarrow> error + npfloat) \<Rightarrow> bool" where
  "cosine_ok d cosine \<longleftrightarrow>
     (\<forall>a b. length a = d \<and> length b = d \<longrightarrow> (\<exists>s. cosine a b = Inr s))"

text \<open>
  The contract of \<open>numpy.argsort\<close>: the positions of the list, each once, in ascending
  order of the scores, \<open>NaN\<close> last. The order of equal scores is left open.
\<close>

definition argsort_ok :: "(npfloat list \<Rightarrow> nat list) \<Rightarrow> bool" where
  "argsort_ok argsort \<longleftrightarrow>
     (\<forall>sims. mset (argsort sims) = mset [0..<length sims]
            \<and> sorted (map (\<lambda>i. rank (sims ! i)) (argsort sims)))"

text \<open>A store whose two lists have one length and whose vectors have dimension \<open>d\<close>.\<close>

definition store_wf :: "nat \<Rightarrow> MemoryVectorStore \<Rightarrow> bool" where
  "store_wf d st \<longleftrightarrow>
     length (chunks st) = length (embeddings st) \<and> (\<forall>v\<in>set (embeddings st). length v = d)"

text \<open>The operations of the store, and a run of them from the initial state.\<close>

datatype store_op =
    AddChunks "DocumentChunk list"
  | Search string int real "string option" "string option"
  | GetStats
  | Clear

fun apply_op :: "(string list \<Rightarrow> real list list) \<Rightarrow> MemoryVectorStore \<Rightarrow> store_op \<Rightarrow> MemoryVectorStore" where
  "apply_op encode st (AddChunks cs) = snd (add_chunks encode cs st)"
| "apply_op encode st (Search query top_k threshold lang cat) = st"
| "apply_op encode st GetStats = st"
| "apply_op encode st Clear = snd (clear st)"

text \<open>The score that \<open>cosine\<close> gives to slot \<open>i\<close> for the query vector \<open>qv\<close>.\<close>

definition score ::
  "(real list \<Rightarrow> real list \<Rightarrow> error + npfloat) \<Rightarrow> real list \<Rightarrow> MemoryVectorStore \<Rightarrow> nat \<Rightarrow> npfloat" where
  "score cosine qv st i = (case cosine qv (embeddings st ! i) of Inr s \<Rightarrow> s | Inl e \<Rightarrow> NaN)"

text \<open>The slots of the chunks that pass the filters.\<close>

definition candidates :: "string option \<Rightarrow> string option \<Rightarrow> DocumentChunk list \<Rightarrow> nat list" where
  "candidates lang cat cs =
     filter (\<lambda>i. cs ! i \<in> set (filter_chunks lang cat cs)) [0..<length cs]"

text \<open>The candidate slots in the order of the reversed argsort of their scores.\<close>

definition ranking ::
  "(real list \<Rightarrow> real list \<Rightarrow> error + npfloat) \<Rightarrow> (npfloat list \<Rightarrow> nat list) \<Rightarrow> real list
     \<Rightarrow> MemoryVectorStore \<Rightarrow> nat list \<Rightarrow> nat list" where
  "ranking cosine argsort qv st cands =
     rev (map (\<lambda>p. cands ! p) (argsort (map (score cosine qv st) cands)))"

definition search_pure ::
  "(real list \<Rightarrow> real list \<Rightarrow> error + npfloat) \<Rightarrow> (npfloat list \<Rightarrow> nat list) \<Rightarrow> real list
     \<Rightarrow> MemoryVectorStore \<Rightarrow> int \<Rightarrow> real \<Rightarrow> string option \<Rightarrow> string option
     \<Rightarrow> (DocumentChunk \<times> npfloat) list" where
  "search_pure cosine argsort qv st top_k threshold lang cat =
     map (\<lambda>i. (chunks st ! i, score cosine qv st i))
       (filter (\<lambda>i. np_ge (score cosine qv st i) threshold)
          (slice_to top_k (ranking cosine argsort qv st (candidates lang cat (chunks st)))))"

subsection \<open>Knowledge service\<close>

text \<open>
  One result comes before another in the merged list: a higher score, or the same score
  and no broad result ahead of a refined one.
\<close>

definition merged_order :: "SearchResult \<Rightarrow> SearchResult \<Rightarrow> bool" where
  "merged_order a b \<longleftrightarrow>
     rank (similarity b) < rank (similarity a)
     \<or> (similarity a = similarity b \<and> (round b = 2 \<longrightarrow> round a = 2))"

text \<open>
  What the code relies on from the console: a log line whose message has no opening
  square bracket is printed (its only tags are the balanced ones of the logger).
\<close>

definition console_plain :: "(string \<Rightarrow> bool) \<Rightarrow> bool" where
  "console_plain console \<longleftrightarrow>
     (\<forall>m. CHR ''['' \<notin> set m \<longrightarrow> info console m \<and> success console m \<and> warning console m)"

subsection \<open>Sample data\<close>

text \<open>
  An embedding function for examples, of dimension 2: a text that ends in \<open>b\<close> is
  \<open>[0, 1]\<close>, one that ends in \<open>z\<close> is the zero vector, any other text is \<open>[1, 0]\<close>.
\<close>

definition sample_encode :: "string list \<Rightarrow> real list list" where
  "sample_encode ts =
     map (\<lambda>t. if t = [] then [1, 0]
              else if last t = CHR ''b'' then [0, 1]
              else if last t = CHR ''z'' then [0, 0]
              else [1, 0]) ts"

text \<open>
  One result that \<open>numpy.argsort\<close> may give: the positions in ascending order of the
  scores, equal scores in the order of their positions.
\<close>

definition stable_argsort :: "npfloat list \<Rightarrow> nat list" where
  "stable_argsort sims = sort_key (\<lambda>i. rank (sims ! i)) [0..<length sims]"

text \<open>
  A console for examples: it refuses a line that holds the closing tag \<open>[/]\<close> and prints
  every other line. In a log line of the logger whose message has no other bracket,
  this tag has nothing to close.
\<close>

fun holds_close_tag :: "string \<Rightarrow> bool" where
  "holds_close_tag (a # b # c # rest) =
     ((a = CHR ''['' \<and> b = CHR ''/'' \<and> c = CHR '']'') \<or> holds_close_tag (b # c # rest))"
| "holds_close_tag [a, b] = False"
| "holds_close_tag [a] = False"
| "holds_close_tag [] = False"

definition sample_console :: "string \<Rightarrow> bool" where
  "sample_console line = (\<not> holds_close_tag line)"

definition sample_chunk :: "string \<Rightarrow> string \<Rightarrow> DocumentChunk" where
  "sample_chunk i c =
     \<lparr>chunk_id = i, document_id = ''doc'', content = c, language = ''en'',
      category = ''guide'', chunk_index = 0, start_pos = 0, end_pos = int (length c),
      metadata = \<lparr>title = ''T'', tags = [], file_path = ''p.md''\<rparr>\<rparr>"

text \<open>Two chunks with the embeddings \<open>[1, 0]\<close> and \<open>[0, 1]\<close>.\<close>

definition store_ab :: MemoryVectorStore where
  "store_ab =
     snd (add_chunks sample_encode [sample_chunk ''c0'' ''a'', sample_chunk ''c1'' ''b''] init_store)"

text \<open>Two chunks with the same embedding \<open>[1, 0]\<close>.\<close>

definition store_tie :: MemoryVectorStore where
  "store_tie =
     snd (add_chunks sample_encode [sample_chunk ''c0'' ''xa'', sample_chunk ''c1'' ''ya''] init_store)"

text \<open>One chunk, added twice.\<close>

definition store_dup :: MemoryVectorStore where
  "store_dup =
     snd (add_chunks sample_encode [sample_chunk ''c0'' ''a'']
            (snd (add_chunks sample_encode [sample_chunk ''c0'' ''a''] init_store)))"

text \<open>A chunk with the zero vector, then a chunk with \<open>[1, 0]\<close>; and the latter alone.\<close>

definition store_zero :: MemoryVectorStore where
  "store_zero =
     snd (add_chunks sample_encode [sample_chunk ''c0'' ''z'', sample_chunk ''c1'' ''a''] init_store)"

definition store_a :: MemoryVectorStore where
  "store_a = snd (add_chunks sample_encode [sample_chunk ''c1'' ''a''] init_store)"

definition sample_settings :: settings where
  "sample_settings = \<lparr>chunk_size = 1000, chunk_overlap = 200\<rparr>"

definition sample_document :: Document where
  "sample_document =
     \<lparr>d_id = ''doc'', d_title = ''A'',
      d_content = ''# A'' @ newline @ newline @ ''content a'' @ newline @ newline
                  @ ''## B'' @ newline @ newline @ ''content b'',
      d_language = ''en'', d_category = ''guide'', d_tags = [], d_file_path = ''a.md''\<rparr>"

text \<open>The second chunk of the sample document: the section of the header \<open>## B\<close>.\<close>

definition sample_section_b :: DocumentChunk where
  "sample_section_b =
     \<lparr>chunk_id = ''doc_chunk_1'', document_id = ''doc'',
      content = ''## B'' @ newline @ newline @ ''content b'', language = ''en'',
      category = ''guide'', chunk_index = 1, start_pos = 16, end_pos = 31,
      metadata = \<lparr>title = ''A'', tags = [], file_path = ''a.md''\<rparr>\<rparr>"

section \<open>The vector store: ranking\<close>

lemma calc_similarities_ok:
  assumes "\<forall>(i, c) \<in> set ics. i < length embs \<and> (\<exists>s. cosine qv (embs ! i) = Inr s)"
  shows "calc_similarities cosine embs qv flt ics =
     Inr (map (\<lambda>i. case cosine qv (embs ! i) of Inr s \<Rightarrow> s | Inl e \<Rightarrow> NaN)
            (map fst (filter (\<lambda>(i, c). c \<in> set flt) ics)),
          map fst (filter (\<lambda>(i, c). c \<in> set flt) ics))"
  using assms
  by (induction ics) auto

lemma collect_results_ok:
  assumes "\<forall>idx\<in>set idxs. idx < length sims \<and> idx < length cidx \<and> cidx ! idx < length cs"
  shows "collect_results cs sims cidx thr idxs =
     Inr (map (\<lambda>idx. (cs ! (cidx ! idx), sims ! idx))
            (filter (\<lambda>idx. np_ge (sims ! idx) thr) idxs))"
  using assms
  by (induction idxs) simp_all

lemma collect_results_no_nan:
  "collect_results cs sims cidx thr idxs = Inr rs \<Longrightarrow> NaN \<notin> snd ` set rs"
proof (induction idxs arbitrary: rs)
  case Nil
  then show ?case by simp
next
  case (Cons idx idxs)
  show ?case
  proof (cases "idx < length sims \<and> np_ge (sims ! idx) thr")
    case True
    with Cons.prems obtain rs' where
      rs': "collect_results cs sims cidx thr idxs = Inr rs'"
      "rs = (cs ! (cidx ! idx), sims ! idx) # rs'"
      by (auto split: if_splits sum.splits)
    from True have "sims ! idx \<noteq> NaN" by auto
    with Cons.IH [OF rs'(1)] rs'(2) show ?thesis by auto
  next
    case False
    with Cons.prems have "collect_results cs sims cidx thr idxs = Inr rs"
      by (auto split: if_splits)
    then show ?thesis by (rule Cons.IH)
  qed
qed

lemma zip_upt_nth: "zip [0..<length cs] cs = map (\<lambda>i. (i, cs ! i)) [0..<length cs]"
  by (rule nth_equalityI) simp_all

lemma enumerate_filter:
  "map fst (filter (\<lambda>(i, c). P c) (zip [0..<length cs] cs)) = filter (\<lambda>i. P (cs ! i)) [0..<length cs]"
  by (simp add: zip_upt_nth filter_map comp_def)

lemma slice_to_map: "slice_to k (map f xs) = map f (slice_to k xs)"
  by (simp add: slice_to_def take_map)

lemma set_slice_to: "set (slice_to k xs) \<subseteq> set xs"
  by (auto simp: slice_to_def dest: in_set_takeD)

lemma slice_to_Nil [simp]: "slice_to k [] = []"
  by (simp add: slice_to_def)


lemma argsort_positions:
  assumes "argsort_ok argsort"
  shows "set (argsort sims) = {0..<length sims}"
proof -
  from assms have "mset (argsort sims) = mset [0..<length sims]"
    by (simp add: argsort_ok_def)
  then have "set (argsort sims) = set [0..<length sims]" by (rule mset_eq_setD)
  then show ?thesis by simp
qed

lemma argsort_distinct:
  assumes "argsort_ok argsort"
  shows "distinct (argsort sims)"
proof -
  from assms have "mset (argsort sims) = mset [0..<length sims]"
    by (simp add: argsort_ok_def)
  then show ?thesis using mset_eq_imp_distinct_iff by fastforce
qed

lemma argsort_Nil:
  assumes "argsort_ok argsort"
  shows "argsort [] = []"
proof -
  from assms have "mset (argsort []) = mset [0..<length ([] :: npfloat list)]"
    unfolding argsort_ok_def by blast
  then show ?thesis by simp
qed

lemma rank_inj: "rank a = rank b \<longleftrightarrow> a = b"
  by (cases a; cases b) simp_all

lemma candidates_sorted: "sorted_wrt (<) (candidates lang cat cs)"
  unfolding candidates_def by (rule sorted_wrt_filter) simp

lemma candidates_distinct: "distinct (candidates lang cat cs)"
  by (simp add: candidates_def)

lemma candidates_range: "set (candidates lang cat cs) \<subseteq> {0..<length cs}"
  by (auto simp: candidates_def)

lemma ranking_mset:
  assumes "argsort_ok argsort"
  shows "mset (ranking cosine argsort qv st cands) = mset cands"
proof -
  let ?perm = "argsort (map (score cosine qv st) cands)"
  from assms have "mset ?perm = mset [0..<length cands]"
    by (simp add: argsort_ok_def)
  then have "mset (map (\<lambda>p. cands ! p) ?perm) = mset (map (\<lambda>p. cands ! p) [0..<length cands])"
    by (metis mset_map)
  then show ?thesis by (simp add: ranking_def map_nth)
qed

lemma ranking_set:
  "argsort_ok argsort \<Longrightarrow> set (ranking cosine argsort qv st cands) = set cands"
  using ranking_mset mset_eq_setD by blast

lemma ranking_distinct:
  "argsort_ok argsort \<Longrightarrow> distinct cands \<Longrightarrow> distinct (ranking cosine argsort qv st cands)"
  using ranking_mset mset_eq_imp_distinct_iff by blast


lemma top_results_slots:
  fixes cs :: "DocumentChunk list"
  assumes "set perm \<subseteq> {0..<length cidx}"
  shows "map (\<lambda>idx. (cs ! (cidx ! idx), map sc cidx ! idx))
           (filter (\<lambda>idx. np_ge (map sc cidx ! idx) thr) (slice_to k (rev perm)))
         = map (\<lambda>i. (cs ! i, sc i))
             (filter (\<lambda>i. np_ge (sc i) thr) (slice_to k (rev (map (\<lambda>p. cidx ! p) perm))))"
proof -
  let ?ps = "slice_to k (rev perm)"
  have in_range: "\<forall>p\<in>set ?ps. p < length cidx"
    using set_slice_to [of k "rev perm"] assms by auto
  have "filter (\<lambda>idx. np_ge (map sc cidx ! idx) thr) ?ps
          = filter (\<lambda>idx. np_ge (sc (cidx ! idx)) thr) ?ps"
    using in_range by (intro filter_cong) simp_all
  moreover have "map (\<lambda>idx. (cs ! (cidx ! idx), map sc cidx ! idx)) (filter (\<lambda>idx. np_ge (sc (cidx ! idx)) thr) ?ps)
          = map (\<lambda>idx. (cs ! (cidx ! idx), sc (cidx ! idx))) (filter (\<lambda>idx. np_ge (sc (cidx ! idx)) thr) ?ps)"
    using in_range by (intro map_cong) simp_all
  moreover have "map (\<lambda>idx. (cs ! (cidx ! idx), sc (cidx ! idx))) (filter (\<lambda>idx. np_ge (sc (cidx ! idx)) thr) ?ps)
          = map (\<lambda>i. (cs ! i, sc i)) (filter (\<lambda>i. np_ge (sc i) thr) (map (\<lambda>p. cidx ! p) ?ps))"
    by (simp add: filter_map comp_def)
  moreover have "map (\<lambda>p. cidx ! p) ?ps = slice_to k (rev (map (\<lambda>p. cidx ! p) perm))"
    by (simp add: slice_to_map [symmetric] rev_map [symmetric])
  ultimately show ?thesis by simp
qed

lemma search_pure:
  assumes cos: "cosine_ok d cosine" and srt: "argsort_ok argsort"
    and enc: "encoder_ok d encode" and wf: "store_wf d st"
  shows "search cosine argsort encode st query top_k threshold lang cat
           = Inr (search_pure cosine argsort (hd (encode [query])) st top_k threshold lang cat)"
proof (cases "chunks st = []")
  case True
  then show ?thesis
    by (simp add: search_def search_pure_def candidates_def ranking_def argsort_Nil [OF srt])
next
  case False
  from enc have "length (encode [query]) = 1" by (simp add: encoder_ok_def)
  then obtain qv where qv: "encode [query] = [qv]"
    by (cases "encode [query]") auto
  from enc qv have lq: "length qv = d"
    unfolding encoder_ok_def by (metis list.set_intros(1))
  let ?flt = "filter_chunks lang cat (chunks st)"
  let ?cidx = "candidates lang cat (chunks st)"
  let ?sc = "score cosine qv st"
  let ?perm = "argsort (map ?sc ?cidx)"
  have "\<forall>(i, c) \<in> set (zip [0..<length (chunks st)] (chunks st)).
           i < length (embeddings st) \<and> (\<exists>s. cosine qv (embeddings st ! i) = Inr s)"
  proof -
    have "\<exists>s. cosine qv (embeddings st ! i) = Inr s" if "i < length (embeddings st)" for i
    proof -
      from that wf have "length (embeddings st ! i) = d"
        by (simp add: store_wf_def)
      with cos lq show ?thesis unfolding cosine_ok_def by blast
    qed
    with wf show ?thesis by (auto simp: store_wf_def dest!: set_zip_leftD)
  qed
  from calc_similarities_ok [of "zip [0..<length (chunks st)] (chunks st)" "embeddings st"
      cosine qv ?flt, OF this]
  have calc: "calc_similarities cosine (embeddings st) qv ?flt
                (zip [0..<length (chunks st)] (chunks st)) = Inr (map ?sc ?cidx, ?cidx)"
    by (simp add: enumerate_filter candidates_def score_def [abs_def])
  show ?thesis
  proof (cases "?cidx = []")
    case True
    with False qv calc show ?thesis
      by (simp add: search_def search_pure_def ranking_def argsort_Nil [OF srt])
  next
    case nonempty: False
    let ?top = "slice_to top_k (rev ?perm)"
    have perm: "set ?perm \<subseteq> {0..<length ?cidx}"
      using argsort_positions [OF srt, of "map ?sc ?cidx"] by simp
    have "\<forall>idx\<in>set ?top. idx < length (map ?sc ?cidx) \<and> idx < length ?cidx
             \<and> ?cidx ! idx < length (chunks st)"
    proof
      fix idx assume "idx \<in> set ?top"
      with set_slice_to [of top_k "rev ?perm"] perm have "idx < length ?cidx" by auto
      moreover from this have "?cidx ! idx \<in> set ?cidx" by simp
      with candidates_range [of lang cat "chunks st"] have "?cidx ! idx < length (chunks st)"
        by auto
      ultimately show "idx < length (map ?sc ?cidx) \<and> idx < length ?cidx
             \<and> ?cidx ! idx < length (chunks st)" by simp
    qed
    from collect_results_ok [OF this, of threshold]
    have "collect_results (chunks st) (map ?sc ?cidx) ?cidx threshold ?top
            = Inr (map (\<lambda>i. (chunks st ! i, ?sc i))
                    (filter (\<lambda>i. np_ge (?sc i) threshold)
                       (slice_to top_k (rev (map (\<lambda>p. ?cidx ! p) ?perm)))))"
      by (simp only: top_results_slots [OF perm])
    with nonempty False qv calc show ?thesis
      by (simp add: search_def search_pure_def ranking_def)
  qed
qed

lemma np_ge_mono: "t1 \<le> t2 \<Longrightarrow> np_ge s t2 \<Longrightarrow> np_ge s t1"
  by (cases s) simp_all

lemma search_pure_mono:
  "t1 \<le> t2 \<Longrightarrow> set (search_pure cosine argsort qv st k t2 lang cat)
                  \<subseteq> set (search_pure cosine argsort qv st k t1 lang cat)"
  by (auto simp: search_pure_def intro: np_ge_mono)


text \<open>
  Claim C7. For a fixed index and query and thresholds \<open>t1 \<le> t2\<close>, both searches return
  and every chunk id returned with threshold \<open>t2\<close> is returned with threshold \<open>t1\<close>.
  This holds for every \<open>top_k\<close>, in particular for one that truncates nothing, since the
  first \<open>top_k\<close> slots are chosen before the threshold is applied.
\<close>

theorem search_threshold_monotone:
  assumes "cosine_ok d cosine" and "argsort_ok argsort"
    and "encoder_ok d encode" and "store_wf d st" and "t1 \<le> t2"
  shows "\<exists>r1 r2. search cosine argsort encode st query top_k t1 lang cat = Inr r1
               \<and> search cosine argsort encode st query top_k t2 lang cat = Inr r2
               \<and> (\<lambda>(c, s). chunk_id c) ` set r2 \<subseteq> (\<lambda>(c, s). chunk_id c) ` set r1"
  using search_pure [OF assms(1-4)] search_pure_mono [OF assms(5)]
  by (metis image_mono)

lemma np_norm_zero: "np_norm v = 0 \<Longrightarrow> \<forall>x\<in>set v. x = 0"
proof -
  assume "np_norm v = 0"
  then have "(\<Sum>x\<leftarrow>v. x * x) = 0" by (simp add: np_norm_def)
  moreover have "\<forall>y\<in>set (map (\<lambda>x. x * x) v). 0 \<le> y" by auto
  ultimately have "\<forall>y\<in>set (map (\<lambda>x. x * x) v). y = 0"
    using sum_list_nonneg_eq_0_iff by blast
  then show ?thesis by auto
qed

lemma np_dot_zero_left: "\<forall>x\<in>set a. x = 0 \<Longrightarrow> np_dot a b = 0"
  unfolding np_dot_def
  by (induction a arbitrary: b) (simp, case_tac b, simp_all)

lemma np_dot_zero_right: "\<forall>x\<in>set b. x = 0 \<Longrightarrow> np_dot a b = 0"
  unfolding np_dot_def
  by (induction a arbitrary: b) (simp, case_tac b, simp_all)

lemma search_no_nan:
  assumes "search cosine argsort encode st query top_k threshold lang cat = Inr rs"
  shows "NaN \<notin> snd ` set rs"
proof -
  from assms have "rs = [] \<or> (\<exists>sims cidx idxs.
      collect_results (chunks st) sims cidx threshold idxs = Inr rs)"
    unfolding search_def Let_def
    by (auto split: if_splits list.splits sum.splits prod.splits)
  then show ?thesis
  proof
    assume "rs = []"
    then show ?thesis by simp
  next
    assume "\<exists>sims cidx idxs. collect_results (chunks st) sims cidx threshold idxs = Inr rs"
    then obtain sims cidx idxs where
      "collect_results (chunks st) sims cidx threshold idxs = Inr rs" by blast
    then show ?thesis by (rule collect_results_no_nan)
  qed
qed

text \<open>
  Claim C5, as amended. For two vectors of one length of which one has zero norm,
  \<open>_cosine_similarity\<close> does not raise, and its division is not guarded: the score is the
  undefined value \<open>NaN\<close>. No result of \<open>search\<close> carries the score \<open>NaN\<close>, since
  \<open>NaN >= threshold\<close> is false.
\<close>

theorem cosine_similarity_zero_norm:
  assumes "length vec1 = length vec2" and "np_norm vec1 = 0 \<or> np_norm vec2 = 0"
  shows "cosine_similarity vec1 vec2 = Inr NaN
         \<and> (\<forall>rs. search cosine argsort encode st query top_k threshold lang cat = Inr rs
                \<longrightarrow> NaN \<notin> snd ` set rs)"
proof -
  from assms(2) have "np_dot vec1 vec2 = 0"
    using np_norm_zero np_dot_zero_left np_dot_zero_right by blast
  with assms have "cosine_similarity vec1 vec2 = Inr NaN"
    by (auto simp: cosine_similarity_def np_divide_def)
  then show ?thesis using search_no_nan by blast
qed

section \<open>The knowledge service: logging and merging\<close>

lemma digit_char_plain: "d < 10 \<Longrightarrow> digit_char d \<noteq> CHR ''[''"
proof -
  assume "d < 10"
  then have "digit_char d \<in> set ''0123456789''"
    unfolding digit_char_def by (intro nth_mem) simp
  then show ?thesis by auto
qed

lemma str_nat_fuel_plain: "CHR ''['' \<notin> set (str_nat_fuel k n)"
proof (induction k arbitrary: n)
  case 0
  have "n mod 10 < 10" by simp
  then show ?case using digit_char_plain [of "n mod 10"] by simp
next
  case (Suc k)
  have "n mod 10 < 10" by simp
  then have "digit_char (n mod 10) \<noteq> CHR ''[''" by (rule digit_char_plain)
  with Suc [of "n div 10"] digit_char_plain [of n] show ?case by auto
qed

lemma str_nat_plain: "CHR ''['' \<notin> set (str_nat n)"
  by (simp add: str_nat_def str_nat_fuel_plain)

lemma log_lines_printed:
  assumes "console_plain console"
  shows "info console ''Round 1: Broad search''"
    and "info console ''Round 2: Refined search''"
    and "warning console ''No results found in broad search''"
    and "success console (''Broad search found '' @ str_nat n @ '' candidates'')"
    and "success console (''Refined search found '' @ str_nat n @ '' high-quality results'')"
    and "success console (''Combined search returned '' @ str_nat n @ '' unique results'')"
  using assms str_nat_plain [of n] unfolding console_plain_def by simp_all

lemma multi_round_search_run:
  assumes "console_plain console"
    and "info console (''Multi-round search for: '' @ query)"
    and "search cosine argsort encode st query broad_top_k broad_threshold None None = Inr broad"
  shows "multi_round_search console cosine argsort encode st query broad_top_k refined_top_k
           broad_threshold refined_threshold =
         (if broad = [] then ([(broad_top_k, broad_threshold)], Inr [])
          else (case search cosine argsort encode st query refined_top_k refined_threshold
                       None None of
                  Inl e \<Rightarrow>
                    ([(broad_top_k, broad_threshold), (refined_top_k, refined_threshold)], Inl e)
                | Inr refined \<Rightarrow>
                    ([(broad_top_k, broad_threshold), (refined_top_k, refined_threshold)],
                     Inr (sort_reverse (\<lambda>r. rank (similarity r)) (merge_results refined broad)))))"
  using assms(2,3) log_lines_printed [OF assms(1)]
  by (simp add: multi_round_search_def Let_def split: sum.splits)

lemma sort_reverse_mset: "mset (sort_reverse key xs) = mset xs"
  by (simp add: sort_reverse_def)

lemma sort_reverse_sorted: "sorted_wrt (\<lambda>a b. key b \<le> key a) (sort_reverse key xs)"
proof -
  have "sorted (map key (sort_key key (rev xs)))" by simp
  then have "sorted_wrt (\<lambda>a b. key a \<le> key b) (sort_key key (rev xs))"
    by (simp add: sorted_map)
  then show ?thesis by (simp add: sort_reverse_def sorted_wrt_rev)
qed

lemma sort_reverse_stable:
  "filter (\<lambda>y. key y = k) (sort_reverse key xs) = filter (\<lambda>y. key y = k) xs"
proof -
  have "filter (\<lambda>y. key y = k) (sort_reverse key xs)
          = rev (filter (\<lambda>y. key y = k) (sort_key key (rev xs)))"
    by (simp add: sort_reverse_def rev_filter)
  also have "\<dots> = rev (filter (\<lambda>y. key y = k) (rev xs))"
    by (simp only: sort_key_stable)
  also have "\<dots> = filter (\<lambda>y. key y = k) xs"
    by (simp add: rev_filter)
  finally show ?thesis .
qed

lemma stable_order:
  fixes key :: "'a \<Rightarrow> 'k::linorder"
  assumes "sorted_wrt (\<lambda>a b. key b \<le> key a) rs"
    and "\<And>k. sorted_wrt R (filter (\<lambda>y. key y = k) rs)"
  shows "sorted_wrt (\<lambda>a b. key b < key a \<or> (key a = key b \<and> R a b)) rs"
  using assms
proof (induction rs)
  case Nil
  then show ?case by simp
next
  case (Cons x rs)
  have tail: "\<And>k. sorted_wrt R (filter (\<lambda>y. key y = k) rs)"
  proof -
    fix k
    from Cons.prems(2) [of k] show "sorted_wrt R (filter (\<lambda>y. key y = k) rs)"
      by (cases "key x = k") simp_all
  qed
  have head: "key y < key x \<or> (key x = key y \<and> R x y)" if "y \<in> set rs" for y
  proof (cases "key y = key x")
    case True
    from Cons.prems(2) [of "key x"] that True have "R x y" by simp
    with True show ?thesis by simp
  next
    case False
    moreover from Cons.prems(1) that have "key y \<le> key x" by simp
    ultimately show ?thesis by simp
  qed
  from Cons.prems(1) have "sorted_wrt (\<lambda>a b. key b \<le> key a) rs" by simp
  with Cons.IH tail head show ?case by simp
qed

lemma sorted_wrt_all: "(\<And>a b. a \<in> set xs \<Longrightarrow> b \<in> set xs \<Longrightarrow> P a b) \<Longrightarrow> sorted_wrt P xs"
  by (induction xs) simp_all

lemma merge_results_rounds:
  "sorted_wrt (\<lambda>a b. round b = 2 \<longrightarrow> round a = 2) (merge_results refined broad)"
proof -
  let ?A = "map (\<lambda>(c, s). \<lparr>chunk = c, similarity = s, round = 2\<rparr>) refined"
  have a: "\<forall>r\<in>set ?A. round r = 2" by auto
  have b: "\<forall>r\<in>set (map (\<lambda>(c, s). \<lparr>chunk = c, similarity = s, round = 1\<rparr>) xs). round r = 1" for xs
    by auto
  have "sorted_wrt (\<lambda>a b. round b = 2 \<longrightarrow> round a = 2) (?A @ map (\<lambda>(c, s). \<lparr>chunk = c, similarity = s, round = 1\<rparr>) xs)" for xs
    unfolding sorted_wrt_append
    using a b [of xs] by (auto intro!: sorted_wrt_all)
  then show ?thesis by (simp add: merge_results_def Let_def)
qed

lemma search_pure_ids_distinct:
  assumes "argsort_ok argsort" and "distinct (map chunk_id (chunks st))"
  shows "distinct (map (\<lambda>(c, s). chunk_id c) (search_pure cosine argsort qv st k t lang cat))"
proof -
  let ?L = "ranking cosine argsort qv st (candidates lang cat (chunks st))"
  let ?js = "filter (\<lambda>i. np_ge (score cosine qv st i) t) (slice_to k ?L)"
  have "distinct ?L"
    using assms(1) candidates_distinct by (rule ranking_distinct)
  then have "distinct (slice_to k ?L)"
    by (simp add: slice_to_def)
  then have d: "distinct ?js" by simp
  have "set ?js \<subseteq> {0..<length (chunks st)}"
    using set_slice_to [of k ?L] candidates_range [of lang cat "chunks st"]
    by (auto simp: ranking_set [OF assms(1)])
  moreover have "i = j" if "i < length (chunks st)" "j < length (chunks st)"
      "chunk_id (chunks st ! i) = chunk_id (chunks st ! j)" for i j
    using that assms(2) nth_eq_iff_index_eq [of "map chunk_id (chunks st)" i j] by simp
  ultimately have "inj_on (\<lambda>i. chunk_id (chunks st ! i)) (set ?js)"
    unfolding inj_on_def by (meson atLeastLessThan_iff subsetD)
  with d have "distinct (map (\<lambda>i. chunk_id (chunks st ! i)) ?js)"
    by (simp add: distinct_map)
  then show ?thesis by (simp add: search_pure_def comp_def)
qed

lemma tagged_id:
  "chunk_id (chunk (case x of (c, s) \<Rightarrow> \<lparr>chunk = c, similarity = s, round = n\<rparr>))
     = (case x of (c, s) \<Rightarrow> chunk_id c)"
  by (cases x) simp

lemma merge_results_ids_distinct:
  assumes "distinct (map (\<lambda>(c, s). chunk_id c) refined)"
    and "distinct (map (\<lambda>(c, s). chunk_id c) broad)"
  shows "distinct (map (\<lambda>r. chunk_id (chunk r)) (merge_results refined broad))"
proof -
  have "distinct (map (\<lambda>(c, s). chunk_id c) (filter P broad))" for P
    using assms(2) by (rule distinct_map_filter)
  with assms(1) show ?thesis
    by (force simp: merge_results_def Let_def comp_def tagged_id image_image)
qed

lemma merge_results_explicit:
  "merge_results refined broad =
     map (\<lambda>(c, s). \<lparr>chunk = c, similarity = s, round = 2\<rparr>) refined
     @ map (\<lambda>(c, s). \<lparr>chunk = c, similarity = s, round = 1\<rparr>)
         (filter (\<lambda>(c, s). chunk_id c \<notin> (\<lambda>(c, s). chunk_id c) ` set refined) broad)"
  by (simp add: merge_results_def Let_def image_image tagged_id)

text \<open>
  Claim C1, as amended. Let the console print the log line of the query, and let the
  stored chunk ids be pairwise distinct. Then \<open>multi_round_search\<close> returns a list \<open>rs\<close>
  of pairwise distinct chunk ids, sorted in descending order of similarity, in which no
  broad result precedes a refined result of exactly the same similarity. When the broad
  pass finds something, \<open>rs\<close> is a rearrangement of the merged list (all refined results,
  tagged 2, followed by the broad results whose chunk id is not among the refined ones,
  tagged 1), and the sort is stable: the results of any one similarity stand in \<open>rs\<close> in
  the order they have in the merged list. When the broad pass finds nothing, \<open>rs\<close> is
  empty.
\<close>

theorem multi_round_search_merge:
  assumes "console_plain console"
    and "info console (''Multi-round search for: '' @ query)"
    and "cosine_ok d cosine" and "argsort_ok argsort"
    and "encoder_ok d encode" and "store_wf d st"
    and "distinct (map chunk_id (chunks st))"
  shows "\<exists>broad rs.
           search cosine argsort encode st query broad_top_k broad_threshold None None = Inr broad
         \<and> snd (multi_round_search console cosine argsort encode st query broad_top_k
                  refined_top_k broad_threshold refined_threshold) = Inr rs
         \<and> distinct (map (\<lambda>r. chunk_id (chunk r)) rs)
         \<and> sorted_wrt merged_order rs
         \<and> (broad = [] \<longrightarrow> rs = [])
         \<and> (broad \<noteq> [] \<longrightarrow>
              (\<exists>refined merged.
                 search cosine argsort encode st query refined_top_k refined_threshold None None
                   = Inr refined
               \<and> merged =
                   map (\<lambda>(c, s). \<lparr>chunk = c, similarity = s, round = 2\<rparr>) refined
                   @ map (\<lambda>(c, s). \<lparr>chunk = c, similarity = s, round = 1\<rparr>)
                       (filter (\<lambda>(c, s). chunk_id c \<notin> (\<lambda>(c, s). chunk_id c) ` set refined)
                          broad)
               \<and> mset rs = mset merged
               \<and> (\<forall>v. filter (\<lambda>r. similarity r = v) rs
                        = filter (\<lambda>r. similarity r = v) merged)))"
proof -
  let ?qv = "hd (encode [query])"
  let ?broad = "search_pure cosine argsort ?qv st broad_top_k broad_threshold None None"
  let ?refined = "search_pure cosine argsort ?qv st refined_top_k refined_threshold None None"
  let ?key = "\<lambda>r. rank (similarity r)"
  let ?merged = "merge_results ?refined ?broad"
  let ?rs = "sort_reverse ?key ?merged"
  have sb: "search cosine argsort encode st query broad_top_k broad_threshold None None
              = Inr ?broad"
    and sr: "search cosine argsort encode st query refined_top_k refined_threshold None None
              = Inr ?refined"
    using search_pure [OF assms(3-6)] by simp_all
  note run = multi_round_search_run [OF assms(1,2) sb, of refined_top_k refined_threshold]
  show ?thesis
  proof (cases "?broad = []")
    case True
    with run have "snd (multi_round_search console cosine argsort encode st query broad_top_k
                  refined_top_k broad_threshold refined_threshold) = Inr []"
      by simp
    with sb True show ?thesis by auto
  next
    case False
    with run sr have res: "snd (multi_round_search console cosine argsort encode st query
                  broad_top_k refined_top_k broad_threshold refined_threshold) = Inr ?rs"
      by simp
    have "distinct (map (\<lambda>r. chunk_id (chunk r)) ?merged)"
      using assms(4,7) by (intro merge_results_ids_distinct search_pure_ids_distinct)
    moreover have "mset (map (\<lambda>r. chunk_id (chunk r)) ?rs)
                     = mset (map (\<lambda>r. chunk_id (chunk r)) ?merged)"
      by (simp add: sort_reverse_mset)
    ultimately have dist: "distinct (map (\<lambda>r. chunk_id (chunk r)) ?rs)"
      using mset_eq_imp_distinct_iff by blast
    have "sorted_wrt (\<lambda>a b. ?key b < ?key a
             \<or> (?key a = ?key b \<and> (round b = 2 \<longrightarrow> round a = 2))) ?rs"
    proof (rule stable_order)
      show "sorted_wrt (\<lambda>a b. ?key b \<le> ?key a) ?rs" by (rule sort_reverse_sorted)
    next
      fix k
      show "sorted_wrt (\<lambda>a b. round b = 2 \<longrightarrow> round a = 2) (filter (\<lambda>y. ?key y = k) ?rs)"
        unfolding sort_reverse_stable
        by (rule sorted_wrt_filter) (rule merge_results_rounds)
    qed
    then have ord: "sorted_wrt merged_order ?rs"
      by (rule sorted_wrt_mono_rel [rotated]) (auto simp: merged_order_def rank_inj)
    have perm: "mset ?rs = mset ?merged"
      by (rule sort_reverse_mset)
    have stable: "filter (\<lambda>r. similarity r = v) ?rs = filter (\<lambda>r. similarity r = v) ?merged" for v
      using sort_reverse_stable [of ?key "rank v" ?merged] by (simp add: rank_inj)
    from sb sr res dist ord False perm stable show ?thesis
      unfolding merge_results_explicit by blast
  qed
qed

section \<open>Invariant, empty index and examples of the store\<close>

lemma apply_op_parity:
  assumes "\<forall>ts. length (encode ts) = length ts"
    and "length (chunks st) = length (embeddings st)"
  shows "length (chunks (apply_op encode st op)) = length (embeddings (apply_op encode st op))"
  using assms by (cases op) (simp_all add: add_chunks_def clear_def Let_def)

text \<open>
  Claim C6. With an embedding function that returns one vector for each text, the store
  holds as many chunks as embedding vectors after every run of operations from the
  initial state: \<open>add_chunks\<close> with any list, \<open>search\<close>, \<open>get_stats\<close> and \<open>clear\<close>.
  (\<open>search\<close> and \<open>get_stats\<close> assign to no field of the store.)
\<close>

theorem length_parity_invariant:
  assumes "\<forall>ts. length (encode ts) = length ts"
  shows "length (chunks (foldl (apply_op encode) init_store ops))
           = length (embeddings (foldl (apply_op encode) init_store ops))"
proof (induction ops rule: rev_induct)
  case Nil
  show ?case by (simp add: init_store_def)
next
  case (snoc op ops)
  then show ?case using apply_op_parity [OF assms] by simp
qed

text \<open>
  Claim C9, as amended. On a store without chunks, \<open>search\<close> returns the empty list
  without an exception. When the console prints the log line of the query,
  \<open>multi_round_search\<close> returns the empty list on such a store, and whenever the broad
  search returns the empty list it returns the empty list and has called \<open>search\<close> once
  only: the refined search is not made.
\<close>

theorem empty_index_search:
  "(chunks st = [] \<longrightarrow>
      search cosine argsort encode st query top_k threshold lang cat = Inr [])
   \<and> (console_plain console \<and> info console (''Multi-round search for: '' @ query) \<longrightarrow>
        (chunks st = [] \<longrightarrow>
           multi_round_search console cosine argsort encode st query broad_top_k refined_top_k
             broad_threshold refined_threshold = ([(broad_top_k, broad_threshold)], Inr []))
      \<and> (search cosine argsort encode st query broad_top_k broad_threshold None None = Inr [] \<longrightarrow>
           multi_round_search console cosine argsort encode st query broad_top_k refined_top_k
             broad_threshold refined_threshold = ([(broad_top_k, broad_threshold)], Inr [])))"
proof -
  have empty: "search cosine argsort encode st q k t l c = Inr []" if "chunks st = []" for q k t l c
    using that by (simp add: search_def)
  have run: "multi_round_search console cosine argsort encode st query broad_top_k refined_top_k
             broad_threshold refined_threshold = ([(broad_top_k, broad_threshold)], Inr [])"
    if "console_plain console" "info console (''Multi-round search for: '' @ query)"
      "search cosine argsort encode st query broad_top_k broad_threshold None None = Inr []"
    using multi_round_search_run [OF that] by simp
  from empty run show ?thesis by blast
qed

lemma sample_encode_ok: "encoder_ok 2 sample_encode"
  by (auto simp: encoder_ok_def sample_encode_def)

lemma cosine_similarity_ok: "cosine_ok d cosine_similarity"
  by (simp add: cosine_ok_def cosine_similarity_def)

lemma stable_argsort_ok: "argsort_ok stable_argsort"
  by (simp add: argsort_ok_def stable_argsort_def)

lemma holds_close_tag_Cons:
  "x \<noteq> CHR ''['' \<Longrightarrow> holds_close_tag (x # xs) = holds_close_tag xs"
proof (cases xs)
  case Nil
  then show ?thesis by simp
next
  case (Cons y ys)
  then show "x \<noteq> CHR ''['' \<Longrightarrow> ?thesis" by (cases ys) simp_all
qed

lemma holds_close_tag_plain: "CHR ''['' \<notin> set m \<Longrightarrow> \<not> holds_close_tag m"
proof (induction m)
  case Nil
  show ?case by simp
next
  case (Cons a m)
  then have "a \<noteq> CHR ''[''" and "\<not> holds_close_tag m" by auto
  then show ?case by (simp add: holds_close_tag_Cons)
qed

lemma holds_close_tag_suffix:
  "CHR ''['' \<notin> set m \<Longrightarrow> holds_close_tag (m @ q) = holds_close_tag q"
proof (induction m)
  case Nil
  show ?case by simp
next
  case (Cons a m)
  then have "a \<noteq> CHR ''[''" and "holds_close_tag (m @ q) = holds_close_tag q" by auto
  then show ?case by (simp add: holds_close_tag_Cons)
qed

lemma sample_console_plain: "console_plain sample_console"
  unfolding console_plain_def
proof (intro allI impI conjI)
  fix m :: string
  assume m: "CHR ''['' \<notin> set m"
  then have plain: "\<not> holds_close_tag m" by (rule holds_close_tag_plain)
  show "info sample_console m"
    using plain by (simp add: info_def sample_console_def bullet_def holds_close_tag_Cons)
  show "warning sample_console m"
    using plain by (simp add: warning_def sample_console_def holds_close_tag_Cons)
  show "success sample_console m"
    using plain holds_close_tag_suffix [OF m, of "''[/bold green]''"]
    by (simp add: success_def sample_console_def check_mark_def holds_close_tag_Cons)
qed

lemma sample_query_printed: "info sample_console (''Multi-round search for: '' @ ''a'')"
  by (simp add: info_def sample_console_def bullet_def)

lemmas store_eval = add_chunks_def init_store_def sample_encode_def
  get_embedding_text_def sample_chunk_def strip_def lstrip_def rstrip_def is_space_def

lemma store_ab_eq:
  "store_ab = \<lparr>chunks = [sample_chunk ''c0'' ''a'', sample_chunk ''c1'' ''b''],
               embeddings = [[1, 0], [0, 1]],
               chunk_to_embedding = [''c0'' \<mapsto> 0, ''c1'' \<mapsto> 1]\<rparr>"
  by (simp add: store_ab_def store_eval)

lemma store_tie_eq:
  "store_tie = \<lparr>chunks = [sample_chunk ''c0'' ''xa'', sample_chunk ''c1'' ''ya''],
               embeddings = [[1, 0], [1, 0]],
               chunk_to_embedding = [''c0'' \<mapsto> 0, ''c1'' \<mapsto> 1]\<rparr>"
  by (simp add: store_tie_def store_eval)

lemma store_dup_eq:
  "store_dup = \<lparr>chunks = [sample_chunk ''c0'' ''a'', sample_chunk ''c0'' ''a''],
               embeddings = [[1, 0], [1, 0]],
               chunk_to_embedding = [''c0'' \<mapsto> 1]\<rparr>"
  by (simp add: store_dup_def store_eval)

lemma store_zero_eq:
  "store_zero = \<lparr>chunks = [sample_chunk ''c0'' ''z'', sample_chunk ''c1'' ''a''],
               embeddings = [[0, 0], [1, 0]],
               chunk_to_embedding = [''c0'' \<mapsto> 0, ''c1'' \<mapsto> 1]\<rparr>"
  by (simp add: store_zero_def store_eval)

lemma store_a_eq:
  "store_a = \<lparr>chunks = [sample_chunk ''c1'' ''a''],
               embeddings = [[1, 0]],
               chunk_to_embedding = [''c1'' \<mapsto> 0]\<rparr>"
  by (simp add: store_a_def store_eval)

lemmas eval_search = search_def sample_encode_def filter_chunks_def cosine_similarity_def
  np_dot_def np_norm_def np_divide_def stable_argsort_def slice_to_def

lemmas eval_log = info_def success_def warning_def sample_console_def bullet_def
  check_mark_def startswith_def str_nat_def digit_char_def

text \<open>A run of all four operations, with a duplicate id and an empty list.\<close>

theorem length_parity_invariant_witness:
  "(\<forall>ts. length (sample_encode ts) = length ts)
   \<and> length (chunks (foldl (apply_op sample_encode) init_store
         [AddChunks [sample_chunk ''c0'' ''a'', sample_chunk ''c0'' ''a''],
          Search ''a'' 5 (7 / 10) None None, AddChunks [], GetStats, Clear,
          AddChunks [sample_chunk ''c1'' ''b'']]))
     = length (embeddings (foldl (apply_op sample_encode) init_store
         [AddChunks [sample_chunk ''c0'' ''a'', sample_chunk ''c0'' ''a''],
          Search ''a'' 5 (7 / 10) None None, AddChunks [], GetStats, Clear,
          AddChunks [sample_chunk ''c1'' ''b'']]))"
proof -
  have h: "\<forall>ts. length (sample_encode ts) = length ts"
    by (simp add: sample_encode_def)
  from h length_parity_invariant [OF h] show ?thesis by blast
qed

text \<open>
  The query \<open>[/]\<close> on the empty store: the first log line holds a closing tag with
  nothing to close, and the call ends with \<open>MarkupError\<close> before any search.
\<close>

theorem multi_round_search_markup_counterexample:
  "chunks init_store = []
   \<and> multi_round_search sample_console cosine_similarity stable_argsort sample_encode
        init_store ''[/]'' 20 5 (3 / 10) (1 / 2) = ([], Inl MarkupError)"
  by (simp add: init_store_def multi_round_search_def eval_log)

text \<open>
  The empty store, and a store of two chunks searched with a broad threshold that no
  score reaches.
\<close>

theorem empty_index_search_witness:
  "chunks init_store = []
   \<and> console_plain sample_console
   \<and> info sample_console (''Multi-round search for: '' @ ''a'')
   \<and> search cosine_similarity stable_argsort sample_encode init_store ''a'' 5 (7 / 10)
        None None = Inr []
   \<and> multi_round_search sample_console cosine_similarity stable_argsort sample_encode
        init_store ''a'' 20 5 (3 / 10) (1 / 2) = ([(20, 3 / 10)], Inr [])
   \<and> search cosine_similarity stable_argsort sample_encode store_ab ''a'' 20 2 None None
       = Inr []
   \<and> multi_round_search sample_console cosine_similarity stable_argsort sample_encode
        store_ab ''a'' 20 5 2 (1 / 2) = ([(20, 2)], Inr [])"
proof -
  have e: "chunks init_store = []" by (simp add: init_store_def)
  have b: "search cosine_similarity stable_argsort sample_encode store_ab ''a'' 20 2 None None
             = Inr []"
    by (simp add: store_ab_eq eval_search)
  from e b sample_console_plain sample_query_printed
    empty_index_search [of init_store cosine_similarity stable_argsort sample_encode "''a''"
      5 "7 / 10" None None sample_console 20 5 "3 / 10" "1 / 2"]
    empty_index_search [of store_ab cosine_similarity stable_argsort sample_encode "''a''"
      5 "7 / 10" None None sample_console 20 5 2 "1 / 2"]
  show ?thesis by simp
qed

text \<open>Two thresholds over the store of two chunks.\<close>

theorem search_threshold_monotone_witness:
  "cosine_ok 2 cosine_similarity \<and> argsort_ok stable_argsort
   \<and> encoder_ok 2 sample_encode \<and> store_wf 2 store_ab \<and> (0::real) \<le> 1 / 2
   \<and> (\<exists>r1 r2. search cosine_similarity stable_argsort sample_encode store_ab ''a'' 5 0
                 None None = Inr r1
             \<and> search cosine_similarity stable_argsort sample_encode store_ab ''a'' 5 (1 / 2)
                 None None = Inr r2
             \<and> (\<lambda>(c, s). chunk_id c) ` set r2 \<subseteq> (\<lambda>(c, s). chunk_id c) ` set r1)"
proof -
  have w: "store_wf 2 store_ab" by (simp add: store_wf_def store_ab_eq)
  have t: "(0::real) \<le> 1 / 2" by simp
  from cosine_similarity_ok stable_argsort_ok sample_encode_ok w t
    search_threshold_monotone [OF cosine_similarity_ok stable_argsort_ok sample_encode_ok w t]
  show ?thesis by blast
qed



text \<open>
  A zero vector in the store: its score is \<open>NaN\<close>, it is ranked first, and with
  \<open>top_k = 1\<close> it takes the place of the chunk that matches the query.
\<close>

theorem cosine_similarity_unguarded_counterexample:
  "np_norm [0, 0] = 0
   \<and> cosine_similarity [1, 0] [0, 0] = Inr NaN
   \<and> search cosine_similarity stable_argsort sample_encode store_zero ''a'' 1 (1 / 2)
        None None = Inr []
   \<and> search cosine_similarity stable_argsort sample_encode store_a ''a'' 1 (1 / 2) None None
       = Inr [(sample_chunk ''c1'' ''a'', Fin 1)]"
  by (simp add: store_zero_eq store_a_eq eval_search)

theorem cosine_similarity_zero_norm_witness:
  "length [1, 0 :: real] = length [0, 0 :: real]
   \<and> (np_norm [1, 0] = 0 \<or> np_norm [0, 0] = 0)
   \<and> cosine_similarity [1, 0] [0, 0] = Inr NaN
   \<and> search cosine_similarity stable_argsort sample_encode store_zero ''a'' 5 (1 / 2)
        None None = Inr [(sample_chunk ''c1'' ''a'', Fin 1)]
   \<and> NaN \<notin> snd ` set [(sample_chunk ''c1'' ''a'', Fin 1)]"
proof -
  have l: "length [1, 0 :: real] = length [0, 0 :: real]" by simp
  have z: "np_norm [1, 0] = 0 \<or> np_norm [0, 0] = 0" by (simp add: np_norm_def)
  have s: "search cosine_similarity stable_argsort sample_encode store_zero ''a'' 5 (1 / 2)
        None None = Inr [(sample_chunk ''c1'' ''a'', Fin 1)]"
    by (simp add: store_zero_eq eval_search)
  from l z s
    cosine_similarity_zero_norm [OF l z, of cosine_similarity stable_argsort sample_encode
      store_zero "''a''" 5 "1 / 2" None None]
  show ?thesis by blast
qed

text \<open>One chunk added twice: both slots are returned, with one chunk id.\<close>

theorem multi_round_search_duplicate_counterexample:
  "snd (multi_round_search sample_console cosine_similarity stable_argsort sample_encode
          store_dup ''a'' 20 5 (3 / 10) (1 / 2))
     = Inr [\<lparr>chunk = sample_chunk ''c0'' ''a'', similarity = Fin 1, round = 2\<rparr>,
            \<lparr>chunk = sample_chunk ''c0'' ''a'', similarity = Fin 1, round = 2\<rparr>]"
  by (simp add: store_dup_eq multi_round_search_def merge_results_def sort_reverse_def
      eval_search eval_log)

text \<open>
  The merge over two chunks of distinct ids and one score, with one refined result: the
  refined result and the remaining broad result tie, and the refined one comes first.
\<close>

theorem multi_round_search_merge_witness:
  "console_plain sample_console
   \<and> info sample_console (''Multi-round search for: '' @ ''a'')
   \<and> cosine_ok 2 cosine_similarity \<and> argsort_ok stable_argsort
   \<and> encoder_ok 2 sample_encode \<and> store_wf 2 store_tie
   \<and> distinct (map chunk_id (chunks store_tie))
   \<and> snd (multi_round_search sample_console cosine_similarity stable_argsort sample_encode
          store_tie ''a'' 20 1 (3 / 10) (1 / 2))
       = Inr [\<lparr>chunk = sample_chunk ''c1'' ''ya'', similarity = Fin 1, round = 2\<rparr>,
              \<lparr>chunk = sample_chunk ''c0'' ''xa'', similarity = Fin 1, round = 1\<rparr>]
   \<and> (\<exists>broad rs.
           search cosine_similarity stable_argsort sample_encode store_tie ''a'' 20 (3 / 10)
             None None = Inr broad
         \<and> snd (multi_round_search sample_console cosine_similarity stable_argsort
                  sample_encode store_tie ''a'' 20 1 (3 / 10) (1 / 2)) = Inr rs
         \<and> distinct (map (\<lambda>r. chunk_id (chunk r)) rs)
         \<and> sorted_wrt merged_order rs
         \<and> (\<exists>refined merged.
                 search cosine_similarity stable_argsort sample_encode store_tie ''a'' 1 (1 / 2)
                   None None = Inr refined
               \<and> merged =
                   map (\<lambda>(c, s). \<lparr>chunk = c, similarity = s, round = 2\<rparr>) refined
                   @ map (\<lambda>(c, s). \<lparr>chunk = c, similarity = s, round = 1\<rparr>)
                       (filter (\<lambda>(c, s). chunk_id c \<notin> (\<lambda>(c, s). chunk_id c) ` set refined)
                          broad)
               \<and> mset rs = mset merged
               \<and> (\<forall>v. filter (\<lambda>r. similarity r = v) rs
                        = filter (\<lambda>r. similarity r = v) merged)))"
proof -
  have w: "store_wf 2 store_tie" by (simp add: store_wf_def store_tie_eq)
  have d: "distinct (map chunk_id (chunks store_tie))"
    by (simp add: store_tie_eq sample_chunk_def)
  have b: "search cosine_similarity stable_argsort sample_encode store_tie ''a'' 20 (3 / 10)
             None None
           = Inr [(sample_chunk ''c1'' ''ya'', Fin 1), (sample_chunk ''c0'' ''xa'', Fin 1)]"
    by (simp add: store_tie_eq eval_search)
  have r: "snd (multi_round_search sample_console cosine_similarity stable_argsort sample_encode
          store_tie ''a'' 20 1 (3 / 10) (1 / 2))
       = Inr [\<lparr>chunk = sample_chunk ''c1'' ''ya'', similarity = Fin 1, round = 2\<rparr>,
              \<lparr>chunk = sample_chunk ''c0'' ''xa'', similarity = Fin 1, round = 1\<rparr>]"
    by (simp add: store_tie_eq multi_round_search_def merge_results_def sort_reverse_def
        eval_search eval_log sample_chunk_def)
  from multi_round_search_merge [OF sample_console_plain sample_query_printed
      cosine_similarity_ok stable_argsort_ok sample_encode_ok w d, of 20 "3 / 10" 1 "1 / 2"]
  obtain broad rs where br:
    "search cosine_similarity stable_argsort sample_encode store_tie ''a'' 20 (3 / 10)
       None None = Inr broad"
    "snd (multi_round_search sample_console cosine_similarity stable_argsort
            sample_encode store_tie ''a'' 20 1 (3 / 10) (1 / 2)) = Inr rs"
    "distinct (map (\<lambda>r. chunk_id (chunk r)) rs)"
    "sorted_wrt merged_order rs"
    "broad \<noteq> [] \<longrightarrow>
       (\<exists>refined merged.
           search cosine_similarity stable_argsort sample_encode store_tie ''a'' 1 (1 / 2)
             None None = Inr refined
         \<and> merged =
             map (\<lambda>(c, s). \<lparr>chunk = c, similarity = s, round = 2\<rparr>) refined
             @ map (\<lambda>(c, s). \<lparr>chunk = c, similarity = s, round = 1\<rparr>)
                 (filter (\<lambda>(c, s). chunk_id c \<notin> (\<lambda>(c, s). chunk_id c) ` set refined) broad)
         \<and> mset rs = mset merged
         \<and> (\<forall>v. filter (\<lambda>r. similarity r = v) rs = filter (\<lambda>r. similarity r = v) merged))"
    by auto
  from br(1) b have "broad \<noteq> []" by auto
  with br have "\<exists>broad rs.
           search cosine_similarity stable_argsort sample_encode store_tie ''a'' 20 (3 / 10)
             None None = Inr broad
         \<and> snd (multi_round_search sample_console cosine_similarity stable_argsort
                  sample_encode store_tie ''a'' 20 1 (3 / 10) (1 / 2)) = Inr rs
         \<and> distinct (map (\<lambda>r. chunk_id (chunk r)) rs)
         \<and> sorted_wrt merged_order rs
         \<and> (\<exists>refined merged.
                 search cosine_similarity stable_argsort sample_encode store_tie ''a'' 1 (1 / 2)
                   None None = Inr refined
               \<and> merged =
                   map (\<lambda>(c, s). \<lparr>chunk = c, similarity = s, round = 2\<rparr>) refined
                   @ map (\<lambda>(c, s). \<lparr>chunk = c, similarity = s, round = 1\<rparr>)
                       (filter (\<lambda>(c, s). chunk_id c \<notin> (\<lambda>(c, s). chunk_id c) ` set refined)
                          broad)
               \<and> mset rs = mset merged
               \<and> (\<forall>v. filter (\<lambda>r. similarity r = v) rs
                        = filter (\<lambda>r. similarity r = v) merged))"
    by blast
  with sample_console_plain sample_query_printed cosine_similarity_ok stable_argsort_ok
    sample_encode_ok w d r
  show ?thesis by blast
qed

section \<open>The chunker: overlap and cuts\<close>

lemma lines_size_append: "lines_size (xs @ ys) = lines_size xs + lines_size ys"
  by (simp add: lines_size_def)












text \<open>
  A cut after four lines of one character, with room for all of them in the overlap:
  the sub-split seeds the last two lines, the fallback split all four.
\<close>

lemma lookback_example:
  "large_step exceeds_float 9 100 ([], [''a'', ''b'', ''c'', ''d''], 8) ''e''
     = ([join newline [''a'', ''b'', ''c'', ''d'']], [''c'', ''d'', ''e''], 6)
   \<and> simple_step 9 100 ([], [''a'', ''b'', ''c'', ''d''], 8) ''e''
     = ([join newline [''a'', ''b'', ''c'', ''d'']], [''a'', ''b'', ''c'', ''d'', ''e''], 10)"
  by (simp add: visited_large_def visited_simple_def startswith_def strip_def lstrip_def
      rstrip_def is_space_def)


lemma large_step_prefix:
  "large_step exceeds cs ov (p @ out, cur, sz) line =
     (case large_step exceeds cs ov (out, cur, sz) line of (out', st) \<Rightarrow> (p @ out', st))"
  by (simp add: Let_def split: prod.splits)

lemma foldl_large_step_prefix:
  "foldl (large_step exceeds cs ov) (p @ out, cur, sz) ls =
     (case foldl (large_step exceeds cs ov) (out, cur, sz) ls of (out', st) \<Rightarrow> (p @ out', st))"
proof (induction ls rule: rev_induct)
  case Nil
  show ?case by simp
next
  case (snoc l ls)
  obtain out' cur' sz' where s: "foldl (large_step exceeds cs ov) (out, cur, sz) ls = (out', cur', sz')"
    by (cases "foldl (large_step exceeds cs ov) (out, cur, sz) ls") auto
  with snoc show ?case
    by (simp add: large_step_prefix del: large_step.simps)
qed

lemma finish_prefix:
  "finish (case st of (out', rest) \<Rightarrow> (p @ out', rest)) = p @ finish st"
  by (cases st) auto

text \<open>
  Claim C10. In \<open>_split_large_section\<close>, when a line starting with \<open>###\<close> is met while
  the chunk in progress has lines and exceeds \<open>0.7 * chunk_size\<close>, the chunk is emitted and
  the next one starts with that line alone, without overlap: the rest of the output is
  what splitting the remaining lines, from the sub-header on, gives by itself.
\<close>
theorem subheader_cut_no_overlap:
  assumes "foldl (large_step exceeds cs ov) ([], [], 0) pre = (out, cur, sz)"
    and "startswith (strip line) ''###''" and "cur \<noteq> []" and "exceeds sz cs"
  shows "large_step exceeds cs ov (out, cur, sz) line
           = (out @ [join newline cur], [line], int (length line) + 1)
         \<and> split_large_section exceeds (pre @ line # post) cs ov
           = out @ [join newline cur] @ split_large_section exceeds (line # post) cs ov"
proof -
  have step: "large_step exceeds cs ov (out, cur, sz) line
           = (out @ [join newline cur], [line], int (length line) + 1)"
    using assms(2-4) by simp
  have first: "large_step exceeds cs ov ([], [], 0) line = ([], [line], int (length line) + 1)"
    by simp
  have "foldl (large_step exceeds cs ov) ([], [], 0) (pre @ line # post)
          = foldl (large_step exceeds cs ov) ((out @ [join newline cur]) @ [], [line], int (length line) + 1) post"
    using assms(1) step by (simp del: large_step.simps)
  also have "\<dots> = (case foldl (large_step exceeds cs ov) ([], [line], int (length line) + 1) post
                      of (out', st) \<Rightarrow> ((out @ [join newline cur]) @ out', st))"
    by (rule foldl_large_step_prefix)
  finally have "split_large_section exceeds (pre @ line # post) cs ov
      = (out @ [join newline cur]) @ finish (foldl (large_step exceeds cs ov) ([], [line], int (length line) + 1) post)"
    unfolding split_large_section_def by (simp only: finish_prefix)
  moreover have "split_large_section exceeds (line # post) cs ov
      = finish (foldl (large_step exceeds cs ov) ([], [line], int (length line) + 1) post)"
    using first by (simp add: split_large_section_def del: large_step.simps finish.simps)
  ultimately show ?thesis using step by simp
qed

text \<open>
  A section of chunk size 10: after the title and a line of four characters the size is
  9, above \<open>0.7 * 10\<close>, and the sub-header starts the next chunk.
\<close>

theorem subheader_cut_no_overlap_witness:
  "foldl (large_step exceeds_float 10 5) ([], [], 0) [''# T'', ''aaaa'']
     = ([], [''# T'', ''aaaa''], 9)
   \<and> startswith (strip ''### S'') ''###'' \<and> [''# T'', ''aaaa''] \<noteq> [] \<and> exceeds_float 9 10
   \<and> large_step exceeds_float 10 5 ([], [''# T'', ''aaaa''], 9) ''### S''
       = ([] @ [join newline [''# T'', ''aaaa'']], [''### S''], int (length ''### S'') + 1)
   \<and> split_large_section exceeds_float ([''# T'', ''aaaa''] @ ''### S'' # [''x'']) 10 5
       = [] @ [join newline [''# T'', ''aaaa'']]
         @ split_large_section exceeds_float (''### S'' # [''x'']) 10 5"
proof -
  have f: "foldl (large_step exceeds_float 10 5) ([], [], 0) [''# T'', ''aaaa'']
     = ([], [''# T'', ''aaaa''], 9)"
    by (simp add: startswith_def strip_def lstrip_def rstrip_def is_space_def)
  have h: "startswith (strip ''### S'') ''###''"
    by (simp add: startswith_def strip_def lstrip_def rstrip_def is_space_def)
  have n: "[''# T'', ''aaaa''] \<noteq> []" by simp
  have e: "exceeds_float 9 10"
    by (simp add: exceeds_float_def round53_def bit_length.simps Let_def)
  from f h n e subheader_cut_no_overlap [OF f h n e, of "[''x'']"]
  show ?thesis by blast
qed

section \<open>The chunker: empty input and offsets\<close>

lemma split_empty: "split_into_chunks cfg exceeds [] size_arg overlap_arg = [[]]"
  by (simp add: split_into_chunks_def header_positions_def startswith_def strip_def lstrip_def
      rstrip_def simple_split_chunks_def Let_def)

theorem empty_text_counterexample:
  "split_into_chunks sample_settings exceeds_float [] None None = [[]]"
  by (simp add: split_into_chunks_def header_positions_def startswith_def strip_def lstrip_def
      rstrip_def simple_split_chunks_def Let_def)

text \<open>
  Claim C3, as amended. For the empty string, \<open>split_into_chunks\<close> returns one chunk,
  the empty string; \<open>create_chunks\<close> skips it, so a document with empty content has no
  chunks.
\<close>
theorem empty_text_chunks:
  "split_into_chunks cfg exceeds [] size_arg overlap_arg = [[]]
   \<and> create_chunks cfg exceeds (document\<lparr>d_content := []\<rparr>) = []"
  by (simp add: create_chunks_def split_empty strip_def lstrip_def rstrip_def)

lemma build_chunks_positions:
  assumes "ck \<in> set (build_chunks document ics acc)"
  shows "ck \<in> set acc
         \<or> (start_pos ck = str_find (d_content document) (content ck)
            \<and> end_pos ck = str_find (d_content document) (content ck) + int (length (content ck)))"
  using assms
proof (induction ics arbitrary: acc)
  case Nil
  then show ?case by simp
next
  case (Cons ic ics)
  obtain i c where ic: "ic = (i, c)" by (cases ic)
  show ?case
  proof (cases "strip c = []")
    case True
    with Cons ic show ?thesis by simp
  next
    case False
    with Cons.prems ic Cons.IH show ?thesis by fastforce
  qed
qed

lemma find_from_found:
  assumes "j \<le> length s" and "startswith (drop j s) sub"
  shows "\<exists>m\<le>length s. find_from i s sub = int (i + m) \<and> startswith (drop m s) sub"
  using assms
proof (induction s arbitrary: i j)
  case Nil
  then show ?case by (simp add: startswith_def)
next
  case (Cons c cs)
  show ?case
  proof (cases "startswith (c # cs) sub")
    case True
    then show ?thesis by (intro exI [of _ 0]) simp
  next
    case False
    with Cons.prems obtain j' where j': "j = Suc j'" by (cases j) auto
    with Cons.prems have "j' \<le> length cs" "startswith (drop j' cs) sub" by simp_all
    from Cons.IH [OF this, of "Suc i"] obtain m where
      "m \<le> length cs" "find_from (Suc i) cs sub = int (Suc i + m)" "startswith (drop m cs) sub"
      by blast
    with False show ?thesis by (intro exI [of _ "Suc m"]) simp
  qed
qed

lemma occurrences_pos:
  assumes "0 < occurrences s sub"
  shows "\<exists>j\<le>length s. startswith (drop j s) sub"
proof -
  from assms have "filter (\<lambda>i. startswith (drop i s) sub) [0..<Suc (length s)] \<noteq> []"
    unfolding occurrences_def by (simp del: upt_Suc)
  then obtain j where "j \<in> set [0..<Suc (length s)]" "startswith (drop j s) sub"
    by (metis (mono_tags, lifting) filter_False)
  then show ?thesis by (metis atLeastLessThan_iff less_Suc_eq_le set_upt)
qed

lemma str_slice_at:
  assumes "m \<le> length s" and "startswith (drop m s) sub"
  shows "str_slice s (int m) (int m + int (length sub)) = sub"
proof -
  from assms(2) have t: "take (length sub) (drop m s) = sub" by (simp add: startswith_def)
  then have "length (take (length sub) (drop m s)) = length sub" by simp
  then have "length sub \<le> length s - m" by simp
  with assms(1) have le: "m + length sub \<le> length s" by simp
  have "int m + int (length sub) = int (m + length sub)" by simp
  then have "str_slice s (int m) (int m + int (length sub)) = drop m (take (m + length sub) s)"
    using assms(1) le unfolding str_slice_def clamp_index_def
    by (simp only: nat_int of_nat_0_le_iff min.absorb2 not_less if_False
          of_nat_less_0_iff)
  also have "\<dots> = sub" using t by (simp add: drop_take)
  finally show ?thesis .
qed

text \<open>
  Claim C8. For every chunk that \<open>create_chunks\<close> makes from a document, if the content
  of the chunk occurs exactly once in the content of the document, then the slice of the
  document content from \<open>start_pos\<close> to \<open>end_pos\<close> is the content of the chunk.
\<close>
theorem chunk_offsets_roundtrip:
  assumes "ck \<in> set (create_chunks cfg exceeds document)"
    and "occurrences (d_content document) (content ck) = 1"
  shows "str_slice (d_content document) (start_pos ck) (end_pos ck) = content ck"
proof -
  from assms(1) build_chunks_positions [of ck document _ "[]"]
  have pos: "start_pos ck = str_find (d_content document) (content ck)"
    "end_pos ck = str_find (d_content document) (content ck) + int (length (content ck))"
    by (auto simp: create_chunks_def Let_def)
  from assms(2) occurrences_pos [of "d_content document" "content ck"]
  obtain j where "j \<le> length (d_content document)"
    "startswith (drop j (d_content document)) (content ck)" by auto
  from find_from_found [OF this, of 0]
  obtain m where m: "m \<le> length (d_content document)"
    "str_find (d_content document) (content ck) = int m"
    "startswith (drop m (d_content document)) (content ck)"
    by (auto simp: str_find_def)
  from str_slice_at [OF m(1,3)] pos m(2) show ?thesis by simp
qed

lemma sample_chunks:
  "create_chunks sample_settings exceeds_float sample_document =
     [\<lparr>chunk_id = ''doc_chunk_0'', document_id = ''doc'',
       content = d_content sample_document, language = ''en'',
       category = ''guide'', chunk_index = 0, start_pos = 0, end_pos = 31,
       metadata = \<lparr>title = ''A'', tags = [], file_path = ''a.md''\<rparr>\<rparr>,
      sample_section_b]"
  by (simp add: create_chunks_def sample_settings_def sample_document_def split_into_chunks_def
      header_positions_def startswith_def strip_def lstrip_def rstrip_def is_space_def newline_def
      section_end_def lstrip_hash_def strip_hash_def str_find_def str_nat_def digit_char_def Let_def
      sample_section_b_def)

lemma sample_section_b_once:
  "occurrences (d_content sample_document) (content sample_section_b) = 1"
  by (simp add: occurrences_def sample_document_def sample_section_b_def newline_def
      startswith_def upt_rec [of _ "Suc _"] upt_rec [of _ "numeral _"])

text \<open>
  The round trip at the sample document: its second chunk occurs once, at position 16.
\<close>

theorem chunk_offsets_roundtrip_witness:
  "sample_section_b \<in> set (create_chunks sample_settings exceeds_float sample_document)
   \<and> occurrences (d_content sample_document) (content sample_section_b) = 1
   \<and> str_slice (d_content sample_document) (start_pos sample_section_b)
        (end_pos sample_section_b) = content sample_section_b"
proof -
  have m: "sample_section_b \<in> set (create_chunks sample_settings exceeds_float sample_document)"
    by (simp add: sample_chunks)
  from m sample_section_b_once chunk_offsets_roundtrip [OF m sample_section_b_once]
  show ?thesis by blast
qed

text \<open>The empty text with the sample settings, and a sample document emptied.\<close>

theorem empty_text_chunks_witness:
  "split_into_chunks sample_settings exceeds_float [] (Some 100) (Some 20) = [[]]
   \<and> create_chunks sample_settings exceeds_float (sample_document\<lparr>d_content := []\<rparr>) = []"
  using empty_text_chunks [of sample_settings exceeds_float "Some 100" "Some 20" sample_document]
  by simp

end
